theory Spec2Isabelle
  imports Main "HOL-Library.AList"
begin

section \<open>Shared vocabulary of the three plugins\<close>

text \<open>
  Python strings are modelled as \<open>string\<close>, the list of the bytes of their UTF-8
  encoding; white space and letter case are modelled on the ASCII characters. \<open>None\<close> is
  \<open>None\<close> of an option type; a \<open>dict\<close> with string keys is an association list in
  insertion order.
\<close>

text \<open>Modelled from the spec: \<open>NotifyType\<close> of \<open>apprise.common\<close> (not under src/), the
  four generic notification levels info, success, warning, failure.\<close>

datatype NotifyType = INFO | SUCCESS | WARNING | FAILURE

text \<open>Every construction failure of the plugins is a Python \<open>TypeError\<close>; the
  constructor names the message it carries.\<close>

datatype config_error =
    InvalidApiKey | InvalidRoutingKey | InvalidSource | InvalidComponent
  | InvalidRegion | InvalidSeverity
  | InvalidBotname | InvalidOrganization | InvalidToken

text \<open>Python truthiness of an optional string (\<open>if source:\<close>).\<close>

definition truthy :: "string option \<Rightarrow> bool" where
  "truthy v = (case v of None \<Rightarrow> False | Some s \<Rightarrow> s \<noteq> [])"

text \<open>\<open>str.isspace\<close> on one ASCII character: the codes 9..13 and 28..32.\<close>

definition is_space :: "char \<Rightarrow> bool" where
  "is_space c = (let n = (of_char c :: nat) in (9 \<le> n \<and> n \<le> 13) \<or> (28 \<le> n \<and> n \<le> 32))"

text \<open>\<open>str.strip()\<close>.\<close>

definition strip :: "string \<Rightarrow> string" where
  "strip s = rev (dropWhile is_space (rev (dropWhile is_space s)))"

text \<open>\<open>str.lower()\<close> on the letters A..Z.\<close>

definition lower_char :: "char \<Rightarrow> char" where
  "lower_char c =
     (case map_of (zip ''ABCDEFGHIJKLMNOPQRSTUVWXYZ'' ''abcdefghijklmnopqrstuvwxyz'') c of
        None \<Rightarrow> c
      | Some d \<Rightarrow> d)"

definition lower :: "string \<Rightarrow> string" where
  "lower s = map lower_char s"

text \<open>\<open>s.startswith(p)\<close>.\<close>

definition startswith :: "string \<Rightarrow> string \<Rightarrow> bool" where
  "startswith s p = (take (length p) s = p)"

text \<open>Modelled from the spec: \<open>validate_regex\<close> of \<open>apprise.utils.parse\<close> (not under
  src/) with its default pattern, as the spec words it for the PagerDuty keys: the value
  must be non-empty after trimming; the trimmed value is what is stored. A missing value
  (\<open>None\<close>) is invalid.\<close>

definition validate_regex :: "string option \<Rightarrow> string option" where
  "validate_regex value =
     (case value of
        None \<Rightarrow> None
      | Some s \<Rightarrow> (if strip s = [] then None else Some (strip s)))"

section \<open>PagerDuty (plugins/pagerduty.py)\<close>

text \<open>\<open>PAGERDUTY_SEVERITY_MAP\<close>, lines 57-62.\<close>

fun PAGERDUTY_SEVERITY_MAP :: "NotifyType \<Rightarrow> string" where
  "PAGERDUTY_SEVERITY_MAP INFO = ''info''"
| "PAGERDUTY_SEVERITY_MAP SUCCESS = ''info''"
| "PAGERDUTY_SEVERITY_MAP WARNING = ''warning''"
| "PAGERDUTY_SEVERITY_MAP FAILURE = ''critical''"

text \<open>\<open>PAGERDUTY_SEVERITIES\<close>, lines 64-69, in the order of the source.\<close>

definition PAGERDUTY_SEVERITIES :: "string list" where
  "PAGERDUTY_SEVERITIES = [''info'', ''warning'', ''critical'', ''error'']"

definition PAGERDUTY_REGIONS :: "string list" where
  "PAGERDUTY_REGIONS = [''us'', ''eu'']"

definition default_region :: string where
  "default_region = ''us''"

text \<open>\<open>PAGERDUTY_API_LOOKUP\<close>, lines 79-82; the constructor admits no other region.\<close>

definition PAGERDUTY_API_LOOKUP :: "string \<Rightarrow> string" where
  "PAGERDUTY_API_LOOKUP r =
     (if r = ''eu'' then ''https://events.eu.pagerduty.com/v2/enqueue''
      else ''https://events.pagerduty.com/v2/enqueue'')"

text \<open>The keyword arguments of \<open>NotifyPagerDuty.__init__\<close>, which are also what
  \<open>parse_url\<close> returns.\<close>

record pd_kwargs =
  kw_apikey :: "string option"
  kw_integrationkey :: "string option"
  kw_source :: "string option"
  kw_component :: "string option"
  kw_group :: "string option"
  kw_class_id :: "string option"
  kw_include_image :: bool
  kw_click :: "string option"
  kw_details :: "(string \<times> string) list"
  kw_region_name :: "string option"
  kw_severity :: "string option"

record NotifyPagerDuty =
  apikey :: string
  integration_key :: string
  source :: string
  component :: string
  region_name :: string
  severity :: "string option"
  click :: "string option"
  class_id :: "string option"
  group :: "string option"
  details :: "(string \<times> string) list"
  include_image :: bool

text \<open>Lines 288-299: the first entry of \<open>PAGERDUTY_SEVERITIES\<close> whose lower-cased name
  starts with the supplied string; \<open>None\<close> here is Python's \<open>False\<close> (no entry).\<close>

definition resolve_severity :: "string \<Rightarrow> string option" where
  "resolve_severity sev = find (\<lambda>s. startswith (lower s) sev) PAGERDUTY_SEVERITIES"

text \<open>\<open>dict.update\<close>: later pairs overwrite earlier ones with the same key.\<close>

definition dict_update :: "(string \<times> string) list \<Rightarrow> (string \<times> string) list \<Rightarrow> (string \<times> string) list" where
  "dict_update d new = fold (\<lambda>(k, v) acc. AList.update k v acc) new d"

text \<open>\<open>NotifyPagerDuty.__init__\<close>, lines 207-324, check by check in the order of the
  source. The assignment of line 253 is overwritten by line 256 and has no effect.\<close>

definition NotifyPagerDuty_init :: "pd_kwargs \<Rightarrow> config_error + NotifyPagerDuty" where
  "NotifyPagerDuty_init kw =
     (case validate_regex (kw_apikey kw) of
        None \<Rightarrow> Inl InvalidApiKey
      | Some ak \<Rightarrow>
     (case validate_regex (kw_integrationkey kw) of
        None \<Rightarrow> Inl InvalidRoutingKey
      | Some ik \<Rightarrow>
     (if truthy (kw_source kw) \<and> validate_regex (kw_source kw) = None then Inl InvalidSource
      else
     (if truthy (kw_component kw) \<and> validate_regex (kw_component kw) = None then Inl InvalidComponent
      else
     (let src = (if truthy (kw_source kw) then the (validate_regex (kw_source kw)) else ''Apprise'');
          cmp = (if truthy (kw_component kw) then the (validate_regex (kw_component kw))
                 else ''Notification'');
          region = (case kw_region_name kw of None \<Rightarrow> default_region | Some r \<Rightarrow> lower r)
      in
      if region \<notin> set PAGERDUTY_REGIONS then Inl InvalidRegion
      else
     (case kw_severity kw of
        None \<Rightarrow>
          Inr \<lparr> apikey = ak, integration_key = ik, source = src, component = cmp,
                region_name = region, severity = None, click = kw_click kw,
                class_id = kw_class_id kw, group = kw_group kw,
                details = dict_update [] (kw_details kw),
                include_image = kw_include_image kw \<rparr>
      | Some sev \<Rightarrow>
         (case resolve_severity sev of
            None \<Rightarrow> Inl InvalidSeverity
          | Some s \<Rightarrow>
              Inr \<lparr> apikey = ak, integration_key = ik, source = src, component = cmp,
                    region_name = region, severity = Some s, click = kw_click kw,
                    class_id = kw_class_id kw, group = kw_group kw,
                    details = dict_update [] (kw_details kw),
                    include_image = kw_include_image kw \<rparr>)))))))"

text \<open>A call with only the two keys; every other argument has the default of the
  signature (line 207).\<close>

definition pd_defaults :: "string \<Rightarrow> string \<Rightarrow> pd_kwargs" where
  "pd_defaults ak ik =
     \<lparr> kw_apikey = Some ak, kw_integrationkey = Some ik, kw_source = None,
       kw_component = None, kw_group = None, kw_class_id = None, kw_include_image = True,
       kw_click = None, kw_details = [], kw_region_name = None, kw_severity = None \<rparr>"

text \<open>The severity rule as the spec words it: a case-insensitive prefix match against
  the ordered sequence (info, warning, error, critical), first match wins.\<close>

definition severity_spec :: "string \<Rightarrow> string option" where
  "severity_spec sev =
     find (\<lambda>s. startswith s (lower sev)) [''info'', ''warning'', ''error'', ''critical'']"

subsection \<open>Transport\<close>

text \<open>Modelled from the spec: the transport (\<open>requests.post\<close>, an external collaborator)
  is a synchronous HTTP POST that either yields a response with a status code or raises
  a \<open>RequestException\<close> (connection failure, timeout). The remote side is a state \<open>'w\<close>
  that each request may change; the network also keeps the trace of the requests posted
  so far.\<close>

datatype response = Status nat | RequestException

record 'd request =
  req_url :: string
  req_data :: 'd
  req_headers :: "(string \<times> string) list"
  req_auth :: "(string \<times> string option) option"

type_synonym ('w, 'd) transport = "'w \<Rightarrow> 'd request \<Rightarrow> response \<times> 'w"

type_synonym ('w, 'd) net = "'w \<times> 'd request list"

definition requests_post ::
  "('w, 'd) transport \<Rightarrow> 'd request \<Rightarrow> ('w, 'd) net \<Rightarrow> response \<times> ('w, 'd) net" where
  "requests_post tr rq net =
     (case tr (fst net) rq of (r, w') \<Rightarrow> (r, (w', snd net @ [rq])))"

text \<open>Modelled from the spec: what the plugins read of \<open>NotifyBase\<close> (not under src/):
  the application id, the image URL the shared image-resolution collaborator gives for
  a notify type (or none), and the URL parameters the base class adds to a rendered URL
  (given the privacy flag).\<close>

record notify_base =
  app_id :: string
  image_url :: "NotifyType \<Rightarrow> string option"
  url_parameters :: "bool \<Rightarrow> (string \<times> string) list"

subsection \<open>PagerDuty send\<close>

record pd_payload =
  routing_key :: string
  summary :: string
  pl_severity :: string
  pl_source :: string
  pl_component :: string
  pl_group :: "string option"
  pl_class :: "string option"
  custom_details :: "(string \<times> string) list option"
  client :: string
  event_action :: string
  links :: "string option"
  images :: "(string \<times> NotifyType) option"

text \<open>Lines 337-384: the payload of one call, built from the adapter and the
  arguments.\<close>

definition pd_build_payload :: "notify_base \<Rightarrow> NotifyPagerDuty \<Rightarrow> string \<Rightarrow> NotifyType \<Rightarrow> pd_payload" where
  "pd_build_payload base self body notify_type =
     \<lparr> routing_key = integration_key self,
       summary = body,
       pl_severity = (if \<not> truthy (severity self) then PAGERDUTY_SEVERITY_MAP notify_type
                      else the (severity self)),
       pl_source = source self,
       pl_component = component self,
       pl_group = (if truthy (group self) then group self else None),
       pl_class = (if truthy (class_id self) then class_id self else None),
       custom_details = (if details self \<noteq> [] then Some (dict_update [] (details self)) else None),
       client = app_id base,
       event_action = ''trigger'',
       links = (if truthy (click self) then click self else None),
       images = (case (if \<not> include_image self then None else image_url base notify_type) of
                   None \<Rightarrow> None
                 | Some u \<Rightarrow> (if u = [] then None else Some (u, notify_type))) \<rparr>"

definition pd_headers :: "notify_base \<Rightarrow> NotifyPagerDuty \<Rightarrow> (string \<times> string) list" where
  "pd_headers base self =
     [(''User-Agent'', app_id base), (''Content-Type'', ''application/json''),
      (''Authorization'', ''Token token='' @ apikey self)]"

text \<open>The PagerDuty request of lines 386-405.\<close>

definition pd_request :: "notify_base \<Rightarrow> NotifyPagerDuty \<Rightarrow> string \<Rightarrow> NotifyType \<Rightarrow> pd_payload request" where
  "pd_request base self body notify_type =
     \<lparr> req_url = PAGERDUTY_API_LOOKUP (region_name self),
       req_data = pd_build_payload base self body notify_type,
       req_headers = pd_headers base self, req_auth = None \<rparr>"

text \<open>\<open>NotifyPagerDuty.send\<close>, lines 326-441. The adapter is threaded through as state;
  the result is the returned boolean, the adapter after the call and the network after
  the call.\<close>

definition NotifyPagerDuty_send ::
  "('w, pd_payload) transport \<Rightarrow> notify_base \<Rightarrow> NotifyPagerDuty \<Rightarrow> string \<Rightarrow> string \<Rightarrow> NotifyType
     \<Rightarrow> ('w, pd_payload) net \<Rightarrow> bool \<times> NotifyPagerDuty \<times> ('w, pd_payload) net" where
  "NotifyPagerDuty_send tr base self body title notify_type net =
     (case requests_post tr (pd_request base self body notify_type) net of
        (Status c, net') \<Rightarrow>
          (if c \<notin> {200, 201, 202} then (False, self, net') else (True, self, net'))
      | (RequestException, net') \<Rightarrow> (False, self, net'))"

section \<open>Zulip (plugins/zulip.py)\<close>

text \<open>The characters of the class \<open>[A-Z0-9_-]\<close> under \<open>re.I\<close>.\<close>

definition is_name_char :: "char \<Rightarrow> bool" where
  "is_name_char c =
     (c \<in> set ''ABCDEFGHIJKLMNOPQRSTUVWXYZabcdefghijklmnopqrstuvwxyz0123456789_-'')"

text \<open>\<open>re.match\<close> of \<open>[A-Z0-9_-]{1,32}\<close> (case-insensitive) at the start of a string:
  the longest run of class characters, at most 32 of them; no match when the run is
  empty. The pattern is not anchored at the end, so the match may stop before the end
  of the string. The result is the matched group and the rest of the string.\<close>

definition match_name32 :: "string \<Rightarrow> (string \<times> string) option" where
  "match_name32 s =
     (let m = take 32 (takeWhile is_name_char s)
      in if m = [] then None else Some (m, drop (length m) s))"

text \<open>\<open>VALIDATE_BOTNAME.match\<close>, line 70: the group \<open>name\<close>.\<close>

definition VALIDATE_BOTNAME :: "string \<Rightarrow> string option" where
  "VALIDATE_BOTNAME s = map_option fst (match_name32 s)"

text \<open>\<open>VALIDATE_ORG.match\<close>, lines 73-75: the group \<open>org\<close> and the optional group
  \<open>hostname\<close> (a dot followed by the longest non-empty run of non-space characters).\<close>

definition VALIDATE_ORG :: "string \<Rightarrow> (string \<times> string option) option" where
  "VALIDATE_ORG s =
     (case match_name32 s of
        None \<Rightarrow> None
      | Some (org, rest) \<Rightarrow>
          (case rest of
             [] \<Rightarrow> Some (org, None)
           | c # cs \<Rightarrow>
               (if c = CHR ''.'' \<and> takeWhile (\<lambda>x. \<not> is_space x) cs \<noteq> []
                then Some (org, Some (takeWhile (\<lambda>x. \<not> is_space x) cs))
                else Some (org, None))))"

text \<open>\<open>s.endswith(suffix)\<close>.\<close>

definition endswith :: "string \<Rightarrow> string \<Rightarrow> bool" where
  "endswith s suffix = (length suffix \<le> length s \<and> drop (length s - length suffix) s = suffix)"

definition is_alnum :: "char \<Rightarrow> bool" where
  "is_alnum c = (c \<in> set ''ABCDEFGHIJKLMNOPQRSTUVWXYZabcdefghijklmnopqrstuvwxyz0123456789'')"

text \<open>Modelled from the spec: \<open>validate_regex\<close> of \<open>apprise.utils.parse\<close> (not under
  src/) called with the token pattern of line 140, \<open>^[A-Z0-9]{32}$\<close> case-insensitive: as
  the spec words it, the token is 32 characters, each a letter or a digit. A missing
  token is invalid.\<close>

definition validate_token :: "string option \<Rightarrow> string option" where
  "validate_token value =
     (case value of
        None \<Rightarrow> None
      | Some s \<Rightarrow> (if length s = 32 \<and> list_all is_alnum s then Some s else None))"

subsection \<open>The store of list objects\<close>

text \<open>The target list of a Zulip adapter is a mutable Python list that \<open>send\<close> copies
  and then consumes. Lists live in a store; an address is an index into it.\<close>

type_synonym addr = nat

type_synonym heap = "string list list"

text \<open>A new list object (\<open>list(xs)\<close>, or the result of a call that returns a fresh list).\<close>

definition list_new :: "string list \<Rightarrow> heap \<Rightarrow> addr \<times> heap" where
  "list_new xs h = (length h, h @ [xs])"

text \<open>\<open>xs.append(x)\<close> on the list at an address.\<close>

definition list_append :: "addr \<Rightarrow> string \<Rightarrow> heap \<Rightarrow> heap" where
  "list_append a x h = h[a := h ! a @ [x]]"

text \<open>\<open>xs.pop(0)\<close> on the list at an address; only called on a non-empty list.\<close>

definition list_pop0 :: "addr \<Rightarrow> heap \<Rightarrow> string \<times> heap" where
  "list_pop0 a h = (hd (h ! a), h[a := tl (h ! a)])"

record NotifyZulip =
  botname :: string
  organization :: string
  hostname :: string
  token :: string
  targets :: addr

record zulip_kwargs =
  zk_botname :: "string option"
  zk_organization :: "string option"
  zk_token :: "string option"
  zk_targets :: "string list option"

text \<open>\<open>NotifyZulip.__init__\<close>, lines 179-238. \<open>parse_list\<close> of \<open>apprise.utils.parse\<close>
  is not under src/ and is taken as a parameter: it returns a fresh list. A missing
  botname or organization raises \<open>AttributeError\<close> on \<open>.strip()\<close>, which the handlers of
  lines 203 and 219 turn into the construction error.\<close>

definition NotifyZulip_init ::
  "(string list option \<Rightarrow> string list) \<Rightarrow> zulip_kwargs \<Rightarrow> heap \<Rightarrow> config_error + (NotifyZulip \<times> heap)" where
  "NotifyZulip_init parse_list kw h =
     (case (case zk_botname kw of None \<Rightarrow> None | Some b \<Rightarrow> VALIDATE_BOTNAME (strip b)) of
        None \<Rightarrow> Inl InvalidBotname
      | Some name \<Rightarrow>
     (let suffix = ''-bot'';
          bot = (if endswith name suffix then take (length name - length suffix) name else name)
      in
     (case (case zk_organization kw of None \<Rightarrow> None | Some org \<Rightarrow> VALIDATE_ORG (strip org)) of
        None \<Rightarrow> Inl InvalidOrganization
      | Some (org, hn) \<Rightarrow>
     (case validate_token (zk_token kw) of
        None \<Rightarrow> Inl InvalidToken
      | Some tok \<Rightarrow>
     (let (ts, h1) = list_new (parse_list (zk_targets kw)) h;
          h2 = (if length (h1 ! ts) = 0 then list_append ts ''general'' h1 else h1)
      in Inr (\<lparr> botname = bot, organization = org,
                 hostname = (case hn of None \<Rightarrow> ''zulipchat.com'' | Some x \<Rightarrow> x),
                 token = tok, targets = ts \<rparr>, h2))))))"

subsection \<open>Zulip send\<close>

text \<open>The loop of lines 271-335 over the local list at address \<open>ts\<close>. The payload dict
  is the one object that every iteration updates; the request posted holds its content
  at the time of the call. \<open>is_email\<close> of \<open>apprise.utils.parse\<close> is not under src/ and
  is taken as a parameter: it gives the full e-mail address of a target that parses as
  an e-mail, and nothing otherwise.\<close>

function zulip_loop ::
  "(string \<Rightarrow> string option) \<Rightarrow> ('w, (string \<times> string) list) transport \<Rightarrow> string
     \<Rightarrow> (string \<times> string) list \<Rightarrow> (string \<times> string option) \<Rightarrow> addr
     \<Rightarrow> bool \<times> (string \<times> string) list \<times> heap \<times> ('w, (string \<times> string) list) net
     \<Rightarrow> bool \<times> (string \<times> string) list \<times> heap \<times> ('w, (string \<times> string) list) net" where
  "zulip_loop is_email tr url hdrs auth ts (has_error, payload, h, net) =
     (if ts < length h \<and> length (h ! ts) \<noteq> 0 then
        (let (target, h1) = list_pop0 ts h;
             result = is_email target;
             payload1 = AList.update ''type'' (if result \<noteq> None then ''private'' else ''stream'') payload;
             payload2 = AList.update ''to'' (case result of None \<Rightarrow> target | Some full_email \<Rightarrow> full_email) payload1;
             (r, net1) = requests_post tr \<lparr> req_url = url, req_data = payload2,
                            req_headers = hdrs, req_auth = Some auth \<rparr> net
         in zulip_loop is_email tr url hdrs auth ts
              ((if r = Status 200 then has_error else True), payload2, h1, net1))
      else (has_error, payload, h, net))"
  by pat_completeness auto
termination
  by (relation "measure (\<lambda>(is_email, tr, url, hdrs, auth, ts, has_error, payload, h, net). length (h ! ts))")
     (auto simp: list_pop0_def)

declare zulip_loop.simps [simp del]

text \<open>\<open>NotifyZulip.send\<close>, lines 240-337. The state is the adapter and the store.\<close>

definition NotifyZulip_send ::
  "(string \<Rightarrow> string option) \<Rightarrow> ('w, (string \<times> string) list) transport \<Rightarrow> notify_base
     \<Rightarrow> NotifyZulip \<times> heap \<Rightarrow> string \<Rightarrow> string \<Rightarrow> NotifyType
     \<Rightarrow> ('w, (string \<times> string) list) net
     \<Rightarrow> bool \<times> (NotifyZulip \<times> heap) \<times> ('w, (string \<times> string) list) net" where
  "NotifyZulip_send is_email tr base st body title notify_type net =
     (let self = fst st; h = snd st;
          hdrs = [(''User-Agent'', app_id base),
                  (''Content-Type'', ''application/x-www-form-urlencoded; charset=utf-8'')];
          url = ''https://'' @ organization self @ ''.'' @ hostname self @ ''/api/v1/messages'';
          payload = [(''subject'', title), (''content'', body)];
          auth = (botname self @ ''-bot@'' @ organization self @ ''.'' @ hostname self,
                  Some (token self));
          (ts, h1) = list_new (h ! targets self) h;
          (has_error, payload', h2, net') =
             zulip_loop is_email tr url hdrs auth ts (False, payload, h1, net)
      in (\<not> has_error, (self, h2), net'))"

text \<open>The request the claim expects for one target: a private message to the full
  address when the target parses as an e-mail, a stream message to the target otherwise.\<close>

definition zulip_request ::
  "(string \<Rightarrow> string option) \<Rightarrow> notify_base \<Rightarrow> NotifyZulip \<Rightarrow> string \<Rightarrow> string \<Rightarrow> string
     \<Rightarrow> (string \<times> string) list request" where
  "zulip_request is_email base self body title target =
     \<lparr> req_url = ''https://'' @ organization self @ ''.'' @ hostname self @ ''/api/v1/messages'',
       req_data = [(''subject'', title), (''content'', body),
                   (''type'', if is_email target \<noteq> None then ''private'' else ''stream''),
                   (''to'', case is_email target of None \<Rightarrow> target | Some e \<Rightarrow> e)],
       req_headers = [(''User-Agent'', app_id base),
                      (''Content-Type'', ''application/x-www-form-urlencoded; charset=utf-8'')],
       req_auth = Some (botname self @ ''-bot@'' @ organization self @ ''.'' @ hostname self,
                        Some (token self)) \<rparr>"

text \<open>The responses the transport gives to a sequence of requests posted one after the
  other, starting from the remote state \<open>w\<close>.\<close>

fun responses :: "('w, 'd) transport \<Rightarrow> 'w \<Rightarrow> 'd request list \<Rightarrow> response list" where
  "responses tr w [] = []"
| "responses tr w (rq # rqs) = (case tr w rq of (r, w') \<Rightarrow> r # responses tr w' rqs)"

fun world_after :: "('w, 'd) transport \<Rightarrow> 'w \<Rightarrow> 'd request list \<Rightarrow> 'w" where
  "world_after tr w [] = w"
| "world_after tr w (rq # rqs) = world_after tr (snd (tr w rq)) rqs"

section \<open>URL helpers of the base class\<close>

text \<open>The plugins render and read URLs through helpers of \<open>URLBase\<close> and
  \<open>apprise.utils.parse\<close>, none of which is under src/. They are modelled here on strings.\<close>

definition is_unreserved :: "char \<Rightarrow> bool" where
  "is_unreserved c =
     (c \<in> set ''ABCDEFGHIJKLMNOPQRSTUVWXYZabcdefghijklmnopqrstuvwxyz0123456789_.-~'')"

definition hexdigit :: "nat \<Rightarrow> char" where
  "hexdigit n = ''0123456789ABCDEF'' ! n"

definition hexval :: "char \<Rightarrow> nat option" where
  "hexval c = map_of (zip ''0123456789ABCDEFabcdef''
                 [0, 1, 2, 3, 4, 5, 6, 7, 8, 9, 10, 11, 12, 13, 14, 15, 10, 11, 12, 13, 14, 15]) c"

text \<open>Modelled from the spec: \<open>URLBase.quote\<close> with \<open>safe=""\<close> (not under src/). The
  spec names the URL grammar but not the encoding; the helper wraps \<open>urllib.parse.quote\<close>,
  which is what is modelled: every byte that is not a letter, a digit or one of \<open>_.-~\<close>
  becomes \<open>%XX\<close> with upper-case hexadecimal digits.\<close>

definition quote_char :: "char \<Rightarrow> string" where
  "quote_char c =
     (if is_unreserved c then [c]
      else [CHR ''%'', hexdigit (of_char c div 16), hexdigit (of_char c mod 16)])"

definition quote :: "string \<Rightarrow> string" where
  "quote s = concat (map quote_char s)"

text \<open>Modelled from the spec: \<open>URLBase.unquote\<close> (not under src/), which wraps
  \<open>urllib.parse.unquote\<close>: every \<open>%XX\<close> with two hexadecimal digits becomes the byte it
  names; everything else stays, also a \<open>+\<close>.\<close>

fun unquote :: "string \<Rightarrow> string" where
  "unquote (c # a # b # rest) =
     (case (if c = CHR ''%'' then hexval a else None, hexval b) of
        (Some x, Some y) \<Rightarrow> char_of (16 * x + y) # unquote rest
      | _ \<Rightarrow> c # unquote (a # b # rest))"
| "unquote s = s"

text \<open>Modelled from the spec: \<open>URLBase.urlencode\<close> (not under src/), which wraps
  \<open>urllib.parse.urlencode\<close>: the pairs as \<open>key=value\<close> joined by \<open>&\<close>, keys and values
  encoded as \<open>quote_plus\<close> does with \<open>safe=""\<close>: a space becomes \<open>+\<close>, every other byte
  is encoded as by \<open>quote\<close>.\<close>

definition quote_plus :: "string \<Rightarrow> string" where
  "quote_plus s = concat (map (\<lambda>c. if c = CHR '' '' then ''+'' else quote_char c) s)"

fun urlencode :: "(string \<times> string) list \<Rightarrow> string" where
  "urlencode [] = []"
| "urlencode [(k, v)] = quote_plus k @ ''='' @ quote_plus v"
| "urlencode ((k, v) # kvs) = quote_plus k @ ''='' @ quote_plus v @ ''&'' @ urlencode kvs"

text \<open>Modelled from the spec: \<open>URLBase.pprint\<close> and its \<open>PrivacyMode\<close>: with the privacy
  flag a secret-typed field is replaced by a fixed redaction token; otherwise the
  content is percent-encoded.\<close>

datatype PrivacyMode = Secret | Outer

definition pprint :: "string \<Rightarrow> bool \<Rightarrow> PrivacyMode \<Rightarrow> string" where
  "pprint content privacy mode = (if privacy \<and> mode = Secret then ''****'' else quote content)"

text \<open>\<open>str(n)\<close> of an integer.\<close>

function str_nat :: "nat \<Rightarrow> string" where
  "str_nat n = (if n < 10 then [hexdigit n] else str_nat (n div 10) @ [hexdigit (n mod 10)])"
  by pat_completeness auto
termination
  by (relation "measure id") auto

declare str_nat.simps [simp del]

definition str_int :: "int \<Rightarrow> string" where
  "str_int i = (if i < 0 then CHR ''-'' # str_nat (nat (- i)) else str_nat (nat i))"

definition digit_val :: "char \<Rightarrow> nat option" where
  "digit_val c = map_of (zip ''0123456789'' [0, 1, 2, 3, 4, 5, 6, 7, 8, 9]) c"

text \<open>The value of a string of decimal digits; \<open>None\<close> when it is empty or holds
  another character.\<close>

definition nat_of_digits :: "string \<Rightarrow> nat option" where
  "nat_of_digits ds =
     (if ds = [] \<or> \<not> list_all (\<lambda>c. digit_val c \<noteq> None) ds then None
      else Some (foldl (\<lambda>acc c. 10 * acc + the (digit_val c)) 0 ds))"

text \<open>Python's \<open>int(s)\<close> on a string: surrounding white space and one sign are allowed;
  \<open>None\<close> is the \<open>ValueError\<close>. (Underscores between digits are not modelled: such a
  string is read as invalid.)\<close>

definition int_of_str :: "string \<Rightarrow> int option" where
  "int_of_str s =
     (case strip s of
        [] \<Rightarrow> None
      | c # cs \<Rightarrow>
          (if c = CHR ''-'' then map_option (\<lambda>n. - int n) (nat_of_digits cs)
           else if c = CHR ''+'' then map_option int (nat_of_digits cs)
           else map_option int (nat_of_digits (c # cs))))"

text \<open>Modelled from the spec: \<open>parse_bool\<close> of \<open>apprise.utils.parse\<close> on the value of a
  flag such as \<open>image=\<close>: a missing flag keeps the default \<open>True\<close> that the plugins pass;
  \<open>yes\<close> (as \<open>url\<close> renders it), \<open>y\<close>, \<open>true\<close>, \<open>t\<close>, \<open>1\<close> and \<open>on\<close> read as true in any
  letter case, everything else (so \<open>no\<close>) as false.\<close>

definition parse_bool :: "string option \<Rightarrow> bool" where
  "parse_bool v =
     (case v of
        None \<Rightarrow> True
      | Some s \<Rightarrow> lower s \<in> set [''yes'', ''y'', ''true'', ''t'', ''1'', ''on''])"

subsection \<open>The base URL parser\<close>

text \<open>The part of a string before the first (last) occurrence of a character, and the
  part after it.\<close>

definition split_first :: "char \<Rightarrow> string \<Rightarrow> (string \<times> string) option" where
  "split_first c s =
     (if c \<in> set s then Some (takeWhile (\<lambda>x. x \<noteq> c) s, tl (dropWhile (\<lambda>x. x \<noteq> c) s))
      else None)"

definition split_last :: "char \<Rightarrow> string \<Rightarrow> (string \<times> string) option" where
  "split_last c s =
     (case split_first c (rev s) of None \<Rightarrow> None | Some (a, b) \<Rightarrow> Some (rev b, rev a))"

text \<open>\<open>s.split(c)\<close>.\<close>

fun split_on :: "char \<Rightarrow> string \<Rightarrow> string list" where
  "split_on c [] = [[]]"
| "split_on c (x # xs) =
     (if x = c then [] # split_on c xs
      else (case split_on c xs of [] \<Rightarrow> [[x]] | y # ys \<Rightarrow> (x # y) # ys))"

text \<open>The \<open>results\<close> dict of \<open>NotifyBase.parse_url\<close>.\<close>

record url_results =
  r_schema :: string
  r_user :: "string option"
  r_password :: "string option"
  r_host :: string
  r_port :: "nat option"
  r_fullpath :: string
  r_qsd :: "(string \<times> string) list"
  r_qsd_plus :: "(string \<times> string) list"
  r_secure :: bool

text \<open>Modelled from the spec: the query string of a URL (section 4.1). The parameters
  are separated by \<open>&\<close>, each \<open>key=value\<close>; keys and values are percent-decoded (a
  \<open>+\<close> stays a \<open>+\<close>: the plugins do not ask the parser to read it as a space); a key
  prefixed with \<open>+\<close> goes, without the prefix, into the details map \<open>qsd+\<close>, every other
  key into \<open>qsd\<close>; a later parameter overwrites an earlier one with the same key.\<close>

definition parse_qsd_item ::
  "string \<Rightarrow> (string \<times> string) list \<times> (string \<times> string) list
     \<Rightarrow> (string \<times> string) list \<times> (string \<times> string) list" where
  "parse_qsd_item item acc =
     (if item = [] then acc
      else
        (let (k0, v0) = (case split_first CHR ''='' item of None \<Rightarrow> (item, []) | Some kv \<Rightarrow> kv);
             k = unquote k0; v = unquote v0
         in if startswith k ''+'' then (fst acc, AList.update (tl k) v (snd acc))
            else (AList.update k v (fst acc), snd acc)))"

definition parse_qsd :: "string \<Rightarrow> (string \<times> string) list \<times> (string \<times> string) list" where
  "parse_qsd qs = fold parse_qsd_item (split_on CHR ''&'' qs) ([], [])"

text \<open>Modelled from the spec: \<open>NotifyBase.parse_url\<close> (not under src/), after section
  4.1 and the URL grammars of section 6:
  \<open>schema://[user[:password]@]host[:port][/path][?query]\<close>. The URL is split into scheme,
  userinfo, host, port, path and query parameters, case-preserving; the port is a
  trailing \<open>:digits\<close> of the host part; \<open>secure\<close> says whether the scheme ends in \<open>s\<close>.
  Parsing fails when the scheme is missing, or when a host is required (\<open>verify_host\<close>)
  and missing.\<close>

definition NotifyBase_parse_url :: "bool \<Rightarrow> string \<Rightarrow> url_results option" where
  "NotifyBase_parse_url verify_host url =
     (case split_first CHR '':'' url of
        None \<Rightarrow> None
      | Some (sch, rest) \<Rightarrow>
          (if sch = [] \<or> \<not> startswith rest ''//'' then None
           else
             (let rest1 = drop 2 rest;
                  (hier, query) = (case split_first CHR ''?'' rest1 of
                                     None \<Rightarrow> (rest1, []) | Some hq \<Rightarrow> hq);
                  (authority, fullpath) = (case split_first CHR ''/'' hier of
                                     None \<Rightarrow> (hier, []) | Some (a, p) \<Rightarrow> (a, CHR ''/'' # p));
                  (userinfo, hostport) = (case split_last CHR ''@'' authority of
                                     None \<Rightarrow> (None, authority) | Some (u, hp) \<Rightarrow> (Some u, hp));
                  (usr, pwd) = (case userinfo of
                                     None \<Rightarrow> (None, None)
                                   | Some u \<Rightarrow> (case split_first CHR '':'' u of
                                                None \<Rightarrow> (Some u, None)
                                              | Some (a, b) \<Rightarrow> (Some a, Some b)));
                  (hst, prt) = (case split_last CHR '':'' hostport of
                                     None \<Rightarrow> (hostport, None)
                                   | Some (a, b) \<Rightarrow> (case nat_of_digits b of
                                                None \<Rightarrow> (hostport, None)
                                              | Some n \<Rightarrow> (a, Some n)));
                  (qsd, qsd_plus) = parse_qsd query
              in if verify_host \<and> hst = [] then None
                 else Some \<lparr> r_schema = sch, r_user = usr, r_password = pwd, r_host = hst,
                             r_port = prt, r_fullpath = fullpath, r_qsd = qsd,
                             r_qsd_plus = qsd_plus, r_secure = endswith sch ''s'' \<rparr>)))"

text \<open>Modelled from the spec: \<open>URLBase.split_path\<close>: the non-empty path segments between
  slashes, each percent-decoded.\<close>

definition split_path :: "string \<Rightarrow> string list" where
  "split_path fullpath = map unquote (filter (\<lambda>seg. seg \<noteq> []) (split_on CHR ''/'' fullpath))"

text \<open>\<open>"key" in qsd and len(qsd["key"])\<close>: the value of a key that is present and not
  empty.\<close>

definition qsd_get :: "(string \<times> string) list \<Rightarrow> string \<Rightarrow> string option" where
  "qsd_get qsd k = (case map_of qsd k of None \<Rightarrow> None | Some v \<Rightarrow> (if v = [] then None else Some v))"

section \<open>Kodi/XBMC (plugins/xbmc.py)\<close>

text \<open>The value passed as \<open>duration\<close>: nothing, an integer, or a string.\<close>

datatype py_value = PyNone | PyInt int | PyStr string

text \<open>The keyword arguments of \<open>NotifyXBMC.__init__\<close>; host, port, user, password and
  secure are consumed by the base constructor.\<close>

record xbmc_kwargs =
  xk_host :: string
  xk_port :: "nat option"
  xk_user :: "string option"
  xk_password :: "string option"
  xk_secure :: bool
  xk_protocol :: "nat option"
  xk_include_image :: bool
  xk_duration :: py_value

record NotifyXBMC =
  host :: string
  port :: "nat option"
  user :: "string option"
  password :: "string option"
  secure :: bool
  duration :: int
  schema :: string
  headers :: "(string \<times> string) list"
  protocol :: nat
  xbmc_include_image :: bool

definition xbmc_default_port :: nat where
  "xbmc_default_port = 8080"

definition xbmc_remote_protocol :: nat where
  "xbmc_remote_protocol = 2"

definition kodi_remote_protocol :: nat where
  "kodi_remote_protocol = 6"

text \<open>\<open>template_args["duration"]\<close>, lines 122-127.\<close>

definition duration_min :: int where
  "duration_min = 1"

definition duration_default :: int where
  "duration_default = 12"

text \<open>Python truthiness of an optional port (\<open>if self.port:\<close>).\<close>

definition port_truthy :: "nat option \<Rightarrow> bool" where
  "port_truthy p = (case p of None \<Rightarrow> False | Some n \<Rightarrow> n \<noteq> 0)"

text \<open>\<open>NotifyXBMC.__init__\<close>, lines 137-165. The test of lines 144-147 is
  \<open>isinstance(duration, int) and template_args["duration"]["min"] > 0\<close>. Modelled from
  the spec: the base constructor (not under src/) stores host, port, user, password and
  secure as they are passed.\<close>

definition NotifyXBMC_init :: "notify_base \<Rightarrow> xbmc_kwargs \<Rightarrow> NotifyXBMC" where
  "NotifyXBMC_init base kw =
     \<lparr> host = xk_host kw, port = xk_port kw, user = xk_user kw, password = xk_password kw,
       secure = xk_secure kw,
       duration = (case xk_duration kw of
                     PyInt d \<Rightarrow> (if \<not> (0 < duration_min) then duration_default else d)
                   | _ \<Rightarrow> duration_default),
       schema = (if xk_secure kw then ''https'' else ''http''),
       headers = [(''User-Agent'', app_id base), (''Content-Type'', ''application/json'')],
       protocol = (case xk_protocol kw of None \<Rightarrow> xbmc_remote_protocol | Some p \<Rightarrow> p),
       xbmc_include_image = xk_include_image kw \<rparr>"

record xbmc_payload =
  jsonrpc :: string
  rpc_method :: string
  p_title :: string
  p_message :: string
  displaytime :: int
  p_image :: "string option"
  p_type :: "string option"
  rpc_id :: nat

text \<open>\<open>_payload_60\<close>, lines 167-203.\<close>

definition payload_60 ::
  "notify_base \<Rightarrow> NotifyXBMC \<Rightarrow> string \<Rightarrow> string \<Rightarrow> NotifyType \<Rightarrow> (string \<times> string) list \<times> xbmc_payload" where
  "payload_60 base self title body notify_type =
     (let img = (if \<not> xbmc_include_image self then None else image_url base notify_type)
      in (headers self,
          \<lparr> jsonrpc = ''2.0'', rpc_method = ''GUI.ShowNotification'', p_title = title,
            p_message = body, displaytime = duration self * 1000,
            p_image = (if truthy img then img else None),
            p_type = (if truthy img then
                        Some (if notify_type = FAILURE then ''error''
                              else if notify_type = WARNING then ''warning'' else ''info'')
                      else None),
            rpc_id = 1 \<rparr>))"

text \<open>\<open>_payload_20\<close>, lines 205-233.\<close>

definition payload_20 ::
  "notify_base \<Rightarrow> NotifyXBMC \<Rightarrow> string \<Rightarrow> string \<Rightarrow> NotifyType \<Rightarrow> (string \<times> string) list \<times> xbmc_payload" where
  "payload_20 base self title body notify_type =
     (let img = (if \<not> xbmc_include_image self then None else image_url base notify_type)
      in (headers self,
          \<lparr> jsonrpc = ''2.0'', rpc_method = ''GUI.ShowNotification'', p_title = title,
            p_message = body, displaytime = duration self * 1000,
            p_image = (if truthy img then img else None),
            p_type = None,
            rpc_id = 1 \<rparr>))"

text \<open>The request of lines 238-258.\<close>

definition xbmc_request ::
  "notify_base \<Rightarrow> NotifyXBMC \<Rightarrow> string \<Rightarrow> string \<Rightarrow> NotifyType \<Rightarrow> xbmc_payload request" where
  "xbmc_request base self body title notify_type =
     (let (hdrs, payload) =
            (if protocol self = xbmc_remote_protocol
             then payload_20 base self title body notify_type
             else payload_60 base self title body notify_type);
          auth = (if truthy (user self) then Some (the (user self), password self) else None);
          url = schema self @ ''://'' @ host self
                @ (if port_truthy (port self) then '':'' @ str_nat (the (port self)) else [])
                @ ''/jsonrpc''
      in \<lparr> req_url = url, req_data = payload, req_headers = hdrs, req_auth = auth \<rparr>)"

text \<open>\<open>NotifyXBMC.send\<close>, lines 235-308.\<close>

definition NotifyXBMC_send ::
  "('w, xbmc_payload) transport \<Rightarrow> notify_base \<Rightarrow> NotifyXBMC \<Rightarrow> string \<Rightarrow> string \<Rightarrow> NotifyType
     \<Rightarrow> ('w, xbmc_payload) net \<Rightarrow> bool \<times> NotifyXBMC \<times> ('w, xbmc_payload) net" where
  "NotifyXBMC_send tr base self body title notify_type net =
     (case requests_post tr (xbmc_request base self body title notify_type) net of
        (Status c, net') \<Rightarrow> (if c \<noteq> 200 then (False, self, net') else (True, self, net'))
      | (RequestException, net') \<Rightarrow> (False, self, net'))"

text \<open>The port of the rendered URL, lines 370 and 380-384: nothing when the adapter has
  no port or its port is the default one of its scheme.\<close>

definition xbmc_url_port :: "NotifyXBMC \<Rightarrow> string" where
  "xbmc_url_port self =
     (let default_port = (if secure self then 443 else xbmc_default_port)
      in if \<not> port_truthy (port self) \<or> port self = Some default_port then []
         else '':'' @ str_nat (the (port self)))"

text \<open>\<open>NotifyXBMC.url\<close>, lines 339-386.\<close>

definition NotifyXBMC_url :: "notify_base \<Rightarrow> NotifyXBMC \<Rightarrow> bool \<Rightarrow> string" where
  "NotifyXBMC_url base self privacy =
     (let params = dict_update
                     [(''image'', if xbmc_include_image self then ''yes'' else ''no''),
                      (''duration'', str_int (duration self))]
                     (url_parameters base privacy);
          auth = (if truthy (user self) \<and> truthy (password self)
                  then quote (the (user self)) @ '':'' @ pprint (the (password self)) privacy Secret @ ''@''
                  else if truthy (user self) then quote (the (user self)) @ ''@''
                  else []);
          default_schema = (if protocol self \<le> xbmc_remote_protocol then ''xbmc'' else ''kodi'');
          default_schema' = (if secure self then default_schema @ ''s'' else default_schema)
      in default_schema' @ ''://'' @ auth @ host self @ xbmc_url_port self
         @ ''/?'' @ urlencode params)"

text \<open>\<open>NotifyXBMC.parse_url\<close>, lines 388-420. A duration that is missing or that
  \<open>int()\<close> rejects raises inside \<open>contextlib.suppress\<close> and leaves the key unset.\<close>

definition NotifyXBMC_parse_url :: "string \<Rightarrow> xbmc_kwargs option" where
  "NotifyXBMC_parse_url url =
     (case NotifyBase_parse_url True url of
        None \<Rightarrow> None
      | Some results \<Rightarrow>
          (let is_xbmc = startswith (r_schema results) ''xbmc'';
               prot = (if is_xbmc then xbmc_remote_protocol else kodi_remote_protocol);
               prt = (if is_xbmc \<and> \<not> port_truthy (r_port results) then Some xbmc_default_port
                      else r_port results);
               dur = (case map_of (r_qsd results) ''duration'' of
                        None \<Rightarrow> PyNone
                      | Some d \<Rightarrow> (case int_of_str d of None \<Rightarrow> PyNone | Some i \<Rightarrow> PyInt (abs i)))
           in Some \<lparr> xk_host = r_host results, xk_port = prt, xk_user = r_user results,
                     xk_password = r_password results, xk_secure = r_secure results,
                     xk_protocol = Some prot,
                     xk_include_image = parse_bool (map_of (r_qsd results) ''image''),
                     xk_duration = dur \<rparr>))"

section \<open>PagerDuty URLs\<close>

text \<open>\<open>NotifyPagerDuty.url\<close>, lines 457-500.\<close>

definition pd_params :: "notify_base \<Rightarrow> NotifyPagerDuty \<Rightarrow> bool \<Rightarrow> (string \<times> string) list" where
  "pd_params base self privacy =
     (let params0 = [(''region'', region_name self),
                     (''image'', if include_image self then ''yes'' else ''no'')];
          params1 = (if truthy (class_id self) then AList.update ''class'' (the (class_id self)) params0
                     else params0);
          params2 = (if truthy (group self) then AList.update ''group'' (the (group self)) params1
                     else params1);
          params3 = (if click self \<noteq> None then AList.update ''click'' (the (click self)) params2
                     else params2);
          params4 = (if truthy (severity self) then AList.update ''severity'' (the (severity self)) params3
                     else params3);
          params5 = dict_update params4 (map (\<lambda>(k, v). (CHR ''+'' # k, v)) (details self))
      in dict_update params5 (url_parameters base privacy))"

definition NotifyPagerDuty_url :: "notify_base \<Rightarrow> NotifyPagerDuty \<Rightarrow> bool \<Rightarrow> string" where
  "NotifyPagerDuty_url base self privacy =
     ''pagerduty'' @ ''://'' @ pprint (integration_key self) privacy Secret @ ''@''
       @ pprint (apikey self) privacy Secret @ ''/'' @ pprint (source self) privacy Outer @ ''/''
       @ pprint (component self) privacy Outer @ ''?'' @ urlencode (pd_params base self privacy)"

text \<open>\<open>NotifyPagerDuty.parse_url\<close>, lines 502-586. A missing user is read as the empty
  string by \<open>unquote\<close>.\<close>

definition NotifyPagerDuty_parse_url :: "string \<Rightarrow> pd_kwargs option" where
  "NotifyPagerDuty_parse_url url =
     (case NotifyBase_parse_url False url of
        None \<Rightarrow> None
      | Some results \<Rightarrow>
          (let qsd = r_qsd results;
               ak = (case qsd_get qsd ''apikey'' of
                       Some v \<Rightarrow> unquote v | None \<Rightarrow> unquote (r_host results));
               ik = (case qsd_get qsd ''integrationkey'' of
                       Some v \<Rightarrow> unquote v
                     | None \<Rightarrow> unquote (case r_user results of None \<Rightarrow> [] | Some u \<Rightarrow> u));
               fullpath = split_path (r_fullpath results);
               (src, fullpath1) =
                  (case qsd_get qsd ''source'' of
                     Some v \<Rightarrow> (Some (unquote v), fullpath)
                   | None \<Rightarrow> (case fullpath of [] \<Rightarrow> (None, []) | x # xs \<Rightarrow> (Some x, xs)));
               cmp =
                  (case qsd_get qsd ''component'' of
                     Some v \<Rightarrow> Some (unquote v)
                   | None \<Rightarrow> (case fullpath1 of [] \<Rightarrow> None | x # xs \<Rightarrow> Some x))
           in Some \<lparr> kw_apikey = Some ak, kw_integrationkey = Some ik, kw_source = src,
                     kw_component = cmp,
                     kw_group = map_option unquote (qsd_get qsd ''group''),
                     kw_class_id = map_option unquote (qsd_get qsd ''class''),
                     kw_include_image = parse_bool (map_of qsd ''image''),
                     kw_click = map_option unquote (qsd_get qsd ''click''),
                     kw_details = dict_update []
                                    (map (\<lambda>(x, y). (unquote x, unquote y)) (r_qsd_plus results)),
                     kw_region_name = map_option unquote (qsd_get qsd ''region''),
                     kw_severity = map_option unquote (qsd_get qsd ''severity'') \<rparr>))"

section \<open>Example collaborators\<close>

text \<open>Concrete collaborators for evaluating the plugins: a base class that resolves no
  image and adds no URL parameter, a remote side that answers every request alike, one
  that fails exactly the request number \<open>n\<close> (counting from 0) with status 500, an
  e-mail test that accepts what contains an \<open>@\<close>, and a \<open>parse_list\<close> that keeps the
  list it is given.\<close>

definition example_base :: notify_base where
  "example_base = \<lparr> app_id = ''Apprise'', image_url = (\<lambda>t. None), url_parameters = (\<lambda>p. []) \<rparr>"

definition always :: "response \<Rightarrow> (unit, 'd) transport" where
  "always r = (\<lambda>w rq. (r, w))"

definition fail_at :: "nat \<Rightarrow> (nat, 'd) transport" where
  "fail_at n = (\<lambda>w rq. (if w = n then Status 500 else Status 200, Suc w))"

definition example_is_email :: "string \<Rightarrow> string option" where
  "example_is_email t = (if CHR ''@'' \<in> set t then Some t else None)"

definition example_parse_list :: "string list option \<Rightarrow> string list" where
  "example_parse_list ts = (case ts of None \<Rightarrow> [] | Some xs \<Rightarrow> xs)"

text \<open>The shapes the Zulip payload dict takes: as built before the loop, or as left by
  an iteration.\<close>

definition payload_ok :: "string \<Rightarrow> string \<Rightarrow> (string \<times> string) list \<Rightarrow> bool" where
  "payload_ok title body p =
     (p = [(''subject'', title), (''content'', body)] \<or>
      (\<exists>x y. p = [(''subject'', title), (''content'', body), (''type'', x), (''to'', y)]))"

section \<open>Properties of the PagerDuty severity\<close>

lemma resolve_severity_member:
  "resolve_severity sev = Some s \<Longrightarrow> s \<in> set PAGERDUTY_SEVERITIES"
  by (auto simp: resolve_severity_def find_Some_iff)

lemma resolve_severity_truthy: "resolve_severity sev = Some s \<Longrightarrow> truthy (Some s)"
  by (auto simp: truthy_def PAGERDUTY_SEVERITIES_def dest!: resolve_severity_member)

lemma init_severity_eq:
  "NotifyPagerDuty_init (kw\<lparr>kw_severity := Some sev\<rparr>) =
     (case NotifyPagerDuty_init (kw\<lparr>kw_severity := None\<rparr>) of
        Inl e \<Rightarrow> Inl e
      | Inr a0 \<Rightarrow> (case resolve_severity sev of
                     None \<Rightarrow> Inl InvalidSeverity
                   | Some s \<Rightarrow> Inr (a0\<lparr>severity := Some s\<rparr>)))"
  by (simp add: NotifyPagerDuty_init_def Let_def split: option.split)

lemma init_severity:
  "NotifyPagerDuty_init kw = Inr a \<Longrightarrow>
     severity a = (case kw_severity kw of None \<Rightarrow> None | Some sev \<Rightarrow> resolve_severity sev)"
  by (auto simp: NotifyPagerDuty_init_def Let_def split: option.splits if_splits)

lemma init_severity_resolves:
  "NotifyPagerDuty_init kw = Inr a \<Longrightarrow> kw_severity kw = Some sev \<Longrightarrow>
     \<exists>x. resolve_severity sev = Some x"
  by (auto simp: NotifyPagerDuty_init_def Let_def split: option.splits if_splits)

lemma pd_send_trace:
  "snd (snd (NotifyPagerDuty_send tr base a body title nt (w, tr0))) =
     (snd (tr w (pd_request base a body nt)), tr0 @ [pd_request base a body nt])"
  by (simp add: NotifyPagerDuty_send_def requests_post_def split: prod.splits response.splits)

lemma payload_severity_none:
  "severity a = None \<Longrightarrow> pl_severity (pd_build_payload base a body nt) = PAGERDUTY_SEVERITY_MAP nt"
  by (simp add: pd_build_payload_def truthy_def)

lemma payload_severity_some:
  "severity a = Some x \<Longrightarrow> truthy (Some x) \<Longrightarrow> pl_severity (pd_build_payload base a body nt) = x"
  by (simp add: pd_build_payload_def)

lemma pd_request_data: "req_data (pd_request base a body nt) = pd_build_payload base a body nt"
  by (simp add: pd_request_def)

lemma lower_literals:
  "lower ''info'' = ''info''" "lower ''warning'' = ''warning''"
  "lower ''critical'' = ''critical''" "lower ''error'' = ''error''"
  by (simp_all add: lower_def lower_char_def)

lemma resolve_severity_prefix:
  assumes "resolve_severity sev = Some x"
  shows "x \<in> {''info'', ''warning'', ''critical'', ''error''} \<and> startswith x sev"
proof -
  from assms have m: "x \<in> set PAGERDUTY_SEVERITIES" and p: "startswith (lower x) sev"
    by (auto simp: resolve_severity_def find_Some_iff)
  from m have x: "x \<in> {''info'', ''warning'', ''critical'', ''error''}"
    by (simp add: PAGERDUTY_SEVERITIES_def)
  then have "lower x = x" using lower_literals by auto
  with p x show ?thesis by simp
qed

lemma resolve_severity_empty: "resolve_severity [] = Some ''info''"
  by (simp add: resolve_severity_def PAGERDUTY_SEVERITIES_def startswith_def)

lemma severity_names_prefix_free:
  assumes "x \<in> {''info'', ''warning'', ''critical'', ''error''}"
    and "sev \<in> {''info'', ''warning'', ''critical'', ''error''}"
    and "startswith x sev"
  shows "x = sev"
  using assms by (auto simp: startswith_def)

text \<open>
  Claim C1. For an adapter that the constructor returned, \<open>send\<close> posts one request.
  When no severity was passed to the constructor, the severity of the request is \<open>info\<close>
  for the notify types info and success, \<open>warning\<close> for warning and \<open>critical\<close> for
  failure. When a severity was passed, the request carries the override whatever the
  notify type of the call: it is one of the four names \<open>info\<close>, \<open>warning\<close>, \<open>critical\<close>,
  \<open>error\<close> and starts with the string passed; it is the string passed when that is one
  of the four names, and \<open>info\<close> when it is empty.
\<close>

theorem pagerduty_payload_severity:
  assumes "NotifyPagerDuty_init kw = Inr a"
    and "NotifyPagerDuty_send tr base a body title nt (w, tr0) = (ok, a', (w', tr1))"
  shows "\<exists>rq. tr1 = tr0 @ [rq] \<and>
           (kw_severity kw = None \<longrightarrow>
              pl_severity (req_data rq) =
                (case nt of INFO \<Rightarrow> ''info'' | SUCCESS \<Rightarrow> ''info''
                          | WARNING \<Rightarrow> ''warning'' | FAILURE \<Rightarrow> ''critical'')) \<and>
           (\<forall>sev. kw_severity kw = Some sev \<longrightarrow>
              pl_severity (req_data rq) \<in> {''info'', ''warning'', ''critical'', ''error''} \<and>
              startswith (pl_severity (req_data rq)) sev \<and>
              (sev = [] \<longrightarrow> pl_severity (req_data rq) = ''info'') \<and>
              (sev \<in> {''info'', ''warning'', ''critical'', ''error''} \<longrightarrow>
                 pl_severity (req_data rq) = sev))"
proof -
  define pl where "pl = pd_build_payload base a body nt"
  define rq where "rq = pd_request base a body nt"
  have d: "req_data rq = pl" by (simp add: rq_def pl_def pd_request_data)
  have p: "tr1 = tr0 @ [rq]"
    using pd_send_trace[of tr base a body title nt w tr0] assms(2) by (simp add: rq_def)
  have s: "severity a = (case kw_severity kw of None \<Rightarrow> None | Some sev \<Rightarrow> resolve_severity sev)"
    using assms(1) by (rule init_severity)
  have n: "pl_severity pl =
             (case nt of INFO \<Rightarrow> ''info'' | SUCCESS \<Rightarrow> ''info''
                       | WARNING \<Rightarrow> ''warning'' | FAILURE \<Rightarrow> ''critical'')"
    if "kw_severity kw = None"
  proof -
    have "pl_severity pl = PAGERDUTY_SEVERITY_MAP nt"
      unfolding pl_def using s that by (simp add: payload_severity_none)
    then show ?thesis by (cases nt) simp_all
  qed
  have o: "pl_severity pl \<in> {''info'', ''warning'', ''critical'', ''error''} \<and>
           startswith (pl_severity pl) sev \<and>
           (sev = [] \<longrightarrow> pl_severity pl = ''info'') \<and>
           (sev \<in> {''info'', ''warning'', ''critical'', ''error''} \<longrightarrow> pl_severity pl = sev)"
    if sv: "kw_severity kw = Some sev" for sev
  proof -
    from init_severity_resolves[OF assms(1) sv] obtain x where x: "resolve_severity sev = Some x" ..
    with s sv have sx: "severity a = Some x" by simp
    have "truthy (Some x)" using x by (rule resolve_severity_truthy)
    with sx have e: "pl_severity pl = x" unfolding pl_def by (rule payload_severity_some)
    from resolve_severity_prefix[OF x]
    have m: "x \<in> {''info'', ''warning'', ''critical'', ''error''}" and q: "startswith x sev"
      by simp_all
    have z: "x = ''info''" if "sev = []"
      using x that by (simp add: resolve_severity_empty)
    have f: "x = sev" if "sev \<in> {''info'', ''warning'', ''critical'', ''error''}"
      using m that q by (rule severity_names_prefix_free)
    show ?thesis unfolding e using m q z f by (intro conjI impI)
  qed
  have c2: "kw_severity kw = None \<longrightarrow>
              pl_severity (req_data rq) =
                (case nt of INFO \<Rightarrow> ''info'' | SUCCESS \<Rightarrow> ''info''
                          | WARNING \<Rightarrow> ''warning'' | FAILURE \<Rightarrow> ''critical'')"
    unfolding d by (rule impI) (rule n)
  have c3: "\<forall>sev. kw_severity kw = Some sev \<longrightarrow>
              pl_severity (req_data rq) \<in> {''info'', ''warning'', ''critical'', ''error''} \<and>
              startswith (pl_severity (req_data rq)) sev \<and>
              (sev = [] \<longrightarrow> pl_severity (req_data rq) = ''info'') \<and>
              (sev \<in> {''info'', ''warning'', ''critical'', ''error''} \<longrightarrow>
                 pl_severity (req_data rq) = sev)"
    unfolding d by (intro allI impI) (rule o)
  show ?thesis by (rule exI[of _ rq]) (intro conjI p c2 c3)
qed

text \<open>The theorem at work: an adapter built without a severity is sent a notification
  of type \<open>failure\<close>, and the request carries \<open>critical\<close>; an adapter built with the
  override \<open>error\<close> is sent a notification of type \<open>success\<close>, and the request carries
  \<open>error\<close>.\<close>

theorem pagerduty_payload_severity_witness:
  "NotifyPagerDuty_init (pd_defaults ''ak'' ''ik'') =
     Inr \<lparr> apikey = ''ak'', integration_key = ''ik'', source = ''Apprise'',
           component = ''Notification'', region_name = ''us'', severity = None,
           click = None, class_id = None, group = None, details = [], include_image = True \<rparr>
   \<and> (\<exists>rq. NotifyPagerDuty_send (always (Status 202)) example_base
         \<lparr> apikey = ''ak'', integration_key = ''ik'', source = ''Apprise'',
           component = ''Notification'', region_name = ''us'', severity = None,
           click = None, class_id = None, group = None, details = [], include_image = True \<rparr>
         ''body'' ''title'' FAILURE ((), [])
       = (True, \<lparr> apikey = ''ak'', integration_key = ''ik'', source = ''Apprise'',
           component = ''Notification'', region_name = ''us'', severity = None,
           click = None, class_id = None, group = None, details = [], include_image = True \<rparr>,
          ((), [rq]))
       \<and> pl_severity (req_data rq) = ''critical'')
   \<and> NotifyPagerDuty_init (pd_defaults ''ak'' ''ik'' \<lparr>kw_severity := Some ''error''\<rparr>) =
     Inr \<lparr> apikey = ''ak'', integration_key = ''ik'', source = ''Apprise'',
           component = ''Notification'', region_name = ''us'', severity = Some ''error'',
           click = None, class_id = None, group = None, details = [], include_image = True \<rparr>
   \<and> (\<exists>rq. NotifyPagerDuty_send (always (Status 202)) example_base
         \<lparr> apikey = ''ak'', integration_key = ''ik'', source = ''Apprise'',
           component = ''Notification'', region_name = ''us'', severity = Some ''error'',
           click = None, class_id = None, group = None, details = [], include_image = True \<rparr>
         ''body'' ''title'' SUCCESS ((), [])
       = (True, \<lparr> apikey = ''ak'', integration_key = ''ik'', source = ''Apprise'',
           component = ''Notification'', region_name = ''us'', severity = Some ''error'',
           click = None, class_id = None, group = None, details = [], include_image = True \<rparr>,
          ((), [rq]))
       \<and> pl_severity (req_data rq) = ''error'')"
proof -
  let ?kd = "pd_defaults ''ak'' ''ik''"
  let ?kw = "pd_defaults ''ak'' ''ik'' \<lparr>kw_severity := Some ''error''\<rparr>"
  let ?ad = "\<lparr> apikey = ''ak'', integration_key = ''ik'', source = ''Apprise'',
           component = ''Notification'', region_name = ''us'', severity = None,
           click = None, class_id = None, group = None, details = [], include_image = True \<rparr>"
  let ?a = "\<lparr> apikey = ''ak'', integration_key = ''ik'', source = ''Apprise'',
           component = ''Notification'', region_name = ''us'', severity = Some ''error'',
           click = None, class_id = None, group = None, details = [], include_image = True \<rparr>"
  have i0: "NotifyPagerDuty_init ?kd = Inr ?ad" by code_simp
  have i: "NotifyPagerDuty_init ?kw = Inr ?a" by code_simp
  have s0: "NotifyPagerDuty_send (always (Status 202)) example_base ?ad ''body'' ''title'' FAILURE ((), [])
      = (True, ?ad, ((), [pd_request example_base ?ad ''body'' FAILURE]))"
    by (simp add: NotifyPagerDuty_send_def requests_post_def always_def)
  have s: "NotifyPagerDuty_send (always (Status 202)) example_base ?a ''body'' ''title'' SUCCESS ((), [])
      = (True, ?a, ((), [pd_request example_base ?a ''body'' SUCCESS]))"
    by (simp add: NotifyPagerDuty_send_def requests_post_def always_def)
  have k0: "kw_severity ?kd = None" by (simp add: pd_defaults_def)
  have k: "kw_severity ?kw = Some ''error''" by (simp add: pd_defaults_def)
  from pagerduty_payload_severity[OF i0 s0] k0
  have v0: "pl_severity (req_data (pd_request example_base ?ad ''body'' FAILURE)) = ''critical''"
    by simp
  from pagerduty_payload_severity[OF i s] k
  have v: "pl_severity (req_data (pd_request example_base ?a ''body'' SUCCESS)) = ''error''"
    by simp
  from s0 v0
  have e0: "\<exists>rq. NotifyPagerDuty_send (always (Status 202)) example_base ?ad ''body'' ''title'' FAILURE ((), [])
      = (True, ?ad, ((), [rq])) \<and> pl_severity (req_data rq) = ''critical''"
    by (intro exI[of _ "pd_request example_base ?ad ''body'' FAILURE"] conjI)
  from s v
  have e: "\<exists>rq. NotifyPagerDuty_send (always (Status 202)) example_base ?a ''body'' ''title'' SUCCESS ((), [])
      = (True, ?a, ((), [rq])) \<and> pl_severity (req_data rq) = ''error''"
    by (intro exI[of _ "pd_request example_base ?a ''body'' SUCCESS"] conjI)
  from i0 e0 i e show ?thesis by (intro conjI)
qed

lemma find_swap_last2:
  "(P c \<Longrightarrow> P d \<Longrightarrow> P a) \<Longrightarrow> find P [a, b, c, d] = find P [a, b, d, c]"
  by auto

lemma critical_error_prefix:
  "startswith ''critical'' l \<Longrightarrow> startswith ''error'' l \<Longrightarrow> startswith ''info'' l"
  by (cases l) (simp_all add: startswith_def)

text \<open>On a lower-case string the rule of the source agrees with the rule of the spec:
  the order of \<open>critical\<close> and \<open>error\<close> in the list makes no difference, since only the
  empty string is a prefix of both, and it matches \<open>info\<close> first.\<close>

lemma resolve_severity_lowercase_agrees: "resolve_severity (lower sev) = severity_spec sev"
  unfolding resolve_severity_def severity_spec_def PAGERDUTY_SEVERITIES_def
  using find_swap_last2[of "\<lambda>s. startswith s (lower sev)" "''critical''" "''error''" "''info''" "''warning''"]
    critical_error_prefix[of "lower sev"]
  by (simp only: lower_literals find.simps split: if_splits)

text \<open>A severity that matches no entry fails the construction, whereas an omitted
  severity stores no override (lemma \<open>init_severity\<close>).\<close>

lemma resolve_severity_no_match_fails:
  "resolve_severity sev = None \<Longrightarrow>
     NotifyPagerDuty_init (kw\<lparr>kw_severity := Some sev\<rparr>) \<noteq> Inr a"
  by (simp add: init_severity_eq split: sum.split)

text \<open>
  Claim C6. The constructor matches the supplied severity against the lower-cased
  entries of the list but does not lower-case the supplied string itself (line 295), so
  the match is case-sensitive: \<open>INFO\<close> is rejected with the construction error, where the
  case-insensitive rule of the spec resolves it to \<open>info\<close>; the same call with \<open>info\<close>
  succeeds.
\<close>

theorem pagerduty_severity_uppercase_rejected:
  "NotifyPagerDuty_init (pd_defaults ''ak'' ''ik'' \<lparr>kw_severity := Some ''INFO''\<rparr>) = Inl InvalidSeverity
   \<and> severity_spec ''INFO'' = Some ''info''
   \<and> NotifyPagerDuty_init (pd_defaults ''ak'' ''ik'' \<lparr>kw_severity := Some ''info''\<rparr>) =
       Inr \<lparr> apikey = ''ak'', integration_key = ''ik'', source = ''Apprise'',
             component = ''Notification'', region_name = ''us'', severity = Some ''info'',
             click = None, class_id = None, group = None, details = [], include_image = True \<rparr>"
  by code_simp

lemma init_with_severity:
  "NotifyPagerDuty_init (kw\<lparr>kw_severity := None\<rparr>) = Inr a0 \<Longrightarrow> resolve_severity sev = Some s \<Longrightarrow>
     NotifyPagerDuty_init (kw\<lparr>kw_severity := Some sev\<rparr>) = Inr (a0\<lparr>severity := Some s\<rparr>)"
  by (simp add: init_severity_eq)

text \<open>
  Claim C10. Whenever the construction succeeds with the severity omitted, it also
  succeeds with the severity \<open>""\<close>: the adapter is the same but for the stored override
  \<open>info\<close>, and the request of every \<open>send\<close> carries the severity \<open>info\<close>, whatever the
  notify type.
\<close>

theorem pagerduty_empty_severity_is_info:
  assumes "NotifyPagerDuty_init (kw\<lparr>kw_severity := None\<rparr>) = Inr a0"
  shows "NotifyPagerDuty_init (kw\<lparr>kw_severity := Some []\<rparr>) = Inr (a0\<lparr>severity := Some ''info''\<rparr>)
       \<and> snd (snd (snd (NotifyPagerDuty_send tr base (a0\<lparr>severity := Some ''info''\<rparr>) body title nt (w, tr0)))) =
           tr0 @ [pd_request base (a0\<lparr>severity := Some ''info''\<rparr>) body nt]
       \<and> pl_severity (req_data (pd_request base (a0\<lparr>severity := Some ''info''\<rparr>) body nt)) = ''info''"
proof (intro conjI)
  show "NotifyPagerDuty_init (kw\<lparr>kw_severity := Some []\<rparr>) = Inr (a0\<lparr>severity := Some ''info''\<rparr>)"
    using assms resolve_severity_empty by (rule init_with_severity)
  show "snd (snd (snd (NotifyPagerDuty_send tr base (a0\<lparr>severity := Some ''info''\<rparr>) body title nt (w, tr0)))) =
           tr0 @ [pd_request base (a0\<lparr>severity := Some ''info''\<rparr>) body nt]"
    by (simp add: pd_send_trace)
  show "pl_severity (req_data (pd_request base (a0\<lparr>severity := Some ''info''\<rparr>) body nt)) = ''info''"
    by (simp add: pd_request_def pd_build_payload_def truthy_def)
qed

theorem pagerduty_empty_severity_is_info_witness:
  "NotifyPagerDuty_init (pd_defaults ''ak'' ''ik'' \<lparr>kw_severity := None\<rparr>) =
     Inr \<lparr> apikey = ''ak'', integration_key = ''ik'', source = ''Apprise'',
           component = ''Notification'', region_name = ''us'', severity = None,
           click = None, class_id = None, group = None, details = [], include_image = True \<rparr>
   \<and> NotifyPagerDuty_init (pd_defaults ''ak'' ''ik'' \<lparr>kw_severity := Some []\<rparr>) =
     Inr \<lparr> apikey = ''ak'', integration_key = ''ik'', source = ''Apprise'',
           component = ''Notification'', region_name = ''us'', severity = Some ''info'',
           click = None, class_id = None, group = None, details = [], include_image = True \<rparr>
   \<and> pl_severity (req_data (pd_request example_base
        \<lparr> apikey = ''ak'', integration_key = ''ik'', source = ''Apprise'',
           component = ''Notification'', region_name = ''us'', severity = Some ''info'',
           click = None, class_id = None, group = None, details = [], include_image = True \<rparr>
        ''disk full'' FAILURE)) = ''info''"
proof -
  let ?a0 = "\<lparr> apikey = ''ak'', integration_key = ''ik'', source = ''Apprise'',
           component = ''Notification'', region_name = ''us'', severity = None,
           click = None, class_id = None, group = None, details = [], include_image = True \<rparr>"
  have h: "NotifyPagerDuty_init (pd_defaults ''ak'' ''ik'' \<lparr>kw_severity := None\<rparr>) = Inr ?a0"
    by code_simp
  from pagerduty_empty_severity_is_info[OF h, of "always (Status 200)" example_base "''disk full''" "''''" FAILURE "()" "[]"] h
  show ?thesis by simp
qed

section \<open>Properties of construction\<close>

text \<open>A PagerDuty region \<open>ca\<close> and a Zulip token of 31 characters fail the construction,
  whatever the other arguments are.\<close>

lemma pagerduty_region_ca_rejected:
  "\<exists>e. NotifyPagerDuty_init (kw\<lparr>kw_region_name := Some ''ca''\<rparr>) = Inl e"
  by (simp add: NotifyPagerDuty_init_def Let_def PAGERDUTY_REGIONS_def lower_def lower_char_def
        split: option.split)

lemma zulip_token_31_rejected:
  "length tok = 31 \<Longrightarrow> \<exists>e. NotifyZulip_init pl (kw\<lparr>zk_token := Some tok\<rparr>) h = Inl e"
  by (simp add: NotifyZulip_init_def Let_def validate_token_def split: option.split prod.split)

text \<open>
  Claim C5. Of the three inputs, the Zulip botname containing a space does not fail the
  construction: \<open>VALIDATE_BOTNAME\<close> (line 70) is not anchored at the end, so the match
  stops at the space and the adapter is built with the botname cut there. The
  constructor called with the botname \<open>goo ber\<close> returns an adapter whose botname is
  \<open>goo\<close>.
\<close>

theorem zulip_botname_with_space_accepted:
  "NotifyZulip_init example_parse_list
     \<lparr> zk_botname = Some ''goo ber'', zk_organization = Some ''apprise'',
       zk_token = Some ''abcdefghijklmnopqrstuvwxyz012345'', zk_targets = None \<rparr> []
   = Inr (\<lparr> botname = ''goo'', organization = ''apprise'', hostname = ''zulipchat.com'',
            token = ''abcdefghijklmnopqrstuvwxyz012345'', targets = 0 \<rparr>, [[''general'']])"
  by code_simp

section \<open>Properties of the Kodi/XBMC adapter\<close>

lemma str_nat_examples:
  "str_nat 8080 = ''8080''" "str_nat 9090 = ''9090''" "str_nat 12 = ''12''" "str_nat 0 = ''0''"
  by (simp_all add: str_nat.simps hexdigit_def)

text \<open>
  Claim C7. \<open>parse_url\<close> gives every \<open>xbmc\<close> scheme without a port the port 8080 (lines
  404-405), also the secure one, whose default port \<open>url\<close> takes to be 443 (line 370):
  the adapter parsed from \<open>xbmcs://host\<close> has secure = true and protocol 2, but its
  rendered URL carries the port 8080. The adapter parsed from \<open>kodi://host:9090\<close> has
  protocol 6 and renders its port.
\<close>

theorem xbmcs_default_port_rendered_as_8080:
  "map_option (\<lambda>kw. (secure (NotifyXBMC_init example_base kw),
                      protocol (NotifyXBMC_init example_base kw),
                      port (NotifyXBMC_init example_base kw),
                      NotifyXBMC_url example_base (NotifyXBMC_init example_base kw) False))
     (NotifyXBMC_parse_url ''xbmcs://host'')
   = Some (True, 2, Some 8080, ''xbmcs://host:8080/?image=yes&duration=12'')
   \<and> map_option (\<lambda>kw. (secure (NotifyXBMC_init example_base kw),
                      protocol (NotifyXBMC_init example_base kw),
                      port (NotifyXBMC_init example_base kw),
                      NotifyXBMC_url example_base (NotifyXBMC_init example_base kw) False))
     (NotifyXBMC_parse_url ''kodi://host:9090'')
   = Some (False, 6, Some 9090, ''kodi://host:9090/?image=yes&duration=12'')"
proof -
  have p1: "NotifyXBMC_parse_url ''xbmcs://host'' =
     Some \<lparr> xk_host = ''host'', xk_port = Some 8080, xk_user = None, xk_password = None,
          xk_secure = True, xk_protocol = Some 2, xk_include_image = True,
          xk_duration = PyNone \<rparr>"
    by code_simp
  have p2: "NotifyXBMC_parse_url ''kodi://host:9090'' =
     Some \<lparr> xk_host = ''host'', xk_port = Some 9090, xk_user = None, xk_password = None,
          xk_secure = False, xk_protocol = Some 6, xk_include_image = True,
          xk_duration = PyNone \<rparr>"
    by code_simp
  show ?thesis
    unfolding p1 p2
    by (simp add: NotifyXBMC_init_def NotifyXBMC_url_def xbmc_url_port_def example_base_def
         dict_update_def duration_default_def str_int_def str_nat_examples port_truthy_def
         truthy_def xbmc_default_port_def xbmc_remote_protocol_def quote_def quote_plus_def quote_char_def
         is_unreserved_def)
qed

text \<open>The two readings of the default port do not fit together: the adapter parsed
  from \<open>xbmcs://host:443\<close> has the port 443, \<open>url\<close> leaves it out as the default, and the
  rendered URL parses to an adapter with the port 8080.\<close>

lemma xbmcs_port_443_not_stable:
  "map_option (\<lambda>kw. (port (NotifyXBMC_init example_base kw),
                      NotifyXBMC_url example_base (NotifyXBMC_init example_base kw) False))
     (NotifyXBMC_parse_url ''xbmcs://host:443'')
   = Some (Some 443, ''xbmcs://host/?image=yes&duration=12'')
   \<and> map_option (\<lambda>kw. port (NotifyXBMC_init example_base kw))
     (NotifyXBMC_parse_url ''xbmcs://host/?image=yes&duration=12'') = Some (Some 8080)"
proof -
  have p1: "NotifyXBMC_parse_url ''xbmcs://host:443'' =
     Some \<lparr> xk_host = ''host'', xk_port = Some 443, xk_user = None, xk_password = None,
          xk_secure = True, xk_protocol = Some 2, xk_include_image = True,
          xk_duration = PyNone \<rparr>"
    by code_simp
  have p2: "NotifyXBMC_parse_url ''xbmcs://host/?image=yes&duration=12'' =
     Some \<lparr> xk_host = ''host'', xk_port = Some 8080, xk_user = None, xk_password = None,
          xk_secure = True, xk_protocol = Some 2, xk_include_image = True,
          xk_duration = PyInt 12 \<rparr>"
    by code_simp
  show ?thesis
    unfolding p1 p2
    by (simp add: NotifyXBMC_init_def NotifyXBMC_url_def xbmc_url_port_def example_base_def
         dict_update_def duration_default_def str_int_def str_nat_examples port_truthy_def
         truthy_def xbmc_default_port_def xbmc_remote_protocol_def quote_def quote_plus_def quote_char_def
         is_unreserved_def)
qed

text \<open>What holds of the stored duration: it is 12 when no integer is passed, the
  integer passed otherwise, and the display time of every payload is 1000 times it.\<close>

lemma xbmc_duration_default:
  "xk_duration kw = PyNone \<or> xk_duration kw = PyStr s \<Longrightarrow> duration (NotifyXBMC_init base kw) = 12"
  by (auto simp: NotifyXBMC_init_def duration_default_def)

lemma xbmc_duration_int:
  "xk_duration kw = PyInt d \<Longrightarrow> duration (NotifyXBMC_init base kw) = d"
  by (simp add: NotifyXBMC_init_def duration_min_def)

lemma xbmc_displaytime:
  "displaytime (req_data (xbmc_request base self body title nt)) = duration self * 1000"
  by (simp add: xbmc_request_def payload_20_def payload_60_def Let_def)

text \<open>
  Claim C8. The test of lines 144-147 compares the declared minimum with 0, not the
  duration with the minimum, so every integer is stored as it is: the URL
  \<open>kodi://localhost?duration=0\<close> gives an adapter with duration 0 and payloads with
  display time 0, and the constructor called with the duration -5 stores -5.
\<close>

theorem xbmc_duration_zero_stored:
  "map_option (\<lambda>kw. duration (NotifyXBMC_init example_base kw))
      (NotifyXBMC_parse_url ''kodi://localhost?duration=0'') = Some 0
   \<and> map_option (\<lambda>kw. displaytime (req_data (xbmc_request example_base
                          (NotifyXBMC_init example_base kw) ''body'' ''title'' INFO)))
      (NotifyXBMC_parse_url ''kodi://localhost?duration=0'') = Some 0
   \<and> duration (NotifyXBMC_init example_base
        \<lparr> xk_host = ''localhost'', xk_port = None, xk_user = None, xk_password = None,
          xk_secure = False, xk_protocol = None, xk_include_image = True,
          xk_duration = PyInt (- 5) \<rparr>) = - 5"
proof -
  have p: "NotifyXBMC_parse_url ''kodi://localhost?duration=0'' =
     Some \<lparr> xk_host = ''localhost'', xk_port = None, xk_user = None, xk_password = None,
          xk_secure = False, xk_protocol = Some 6, xk_include_image = True,
          xk_duration = PyInt 0 \<rparr>"
    by code_simp
  show ?thesis
    unfolding p by (simp add: xbmc_displaytime xbmc_duration_int)
qed

section \<open>Properties of the Zulip fan-out\<close>

text \<open>The loop posts one request per element of the list at its address, in order,
  empties that list and touches no other; it reports an error if and only if some
  response was not a 200.\<close>

lemma payload_step:
  "payload_ok title body p \<Longrightarrow>
     AList.update ''to'' y (AList.update ''type'' x p) =
       [(''subject'', title), (''content'', body), (''type'', x), (''to'', y)]"
  by (auto simp: payload_ok_def)

lemma zulip_loop_run:
  "ts < length h \<Longrightarrow> h ! ts = xs \<Longrightarrow> payload_ok title body p \<Longrightarrow>
   hdrs = [(''User-Agent'', app_id base),
           (''Content-Type'', ''application/x-www-form-urlencoded; charset=utf-8'')] \<Longrightarrow>
   url = ''https://'' @ organization self @ ''.'' @ hostname self @ ''/api/v1/messages'' \<Longrightarrow>
   auth = (botname self @ ''-bot@'' @ organization self @ ''.'' @ hostname self, Some (token self)) \<Longrightarrow>
   \<exists>p'. zulip_loop is_email tr url hdrs auth ts (e, p, h, (w, tr0)) =
      ((e \<or> \<not> list_all (\<lambda>r. r = Status 200)
               (responses tr w (map (zulip_request is_email base self body title) xs))),
       p', h[ts := []],
       (world_after tr w (map (zulip_request is_email base self body title) xs),
        tr0 @ map (zulip_request is_email base self body title) xs)) \<and> payload_ok title body p'"
proof (induction xs arbitrary: h e p w tr0)
  case Nil
  have "h[ts := []] = h" using Nil.prems(2) by (metis list_update_id)
  with Nil show ?case
    by (subst zulip_loop.simps) simp
next
  case (Cons x xs)
  let ?rq = "zulip_request is_email base self body title x"
  let ?p2 = "[(''subject'', title), (''content'', body),
       (''type'', if is_email x \<noteq> None then ''private'' else ''stream''),
       (''to'', case is_email x of None \<Rightarrow> x | Some e \<Rightarrow> e)]"
  obtain r w1 where trw: "tr w ?rq = (r, w1)" by (cases "tr w ?rq")
  have ok2: "payload_ok title body ?p2" by (simp add: payload_ok_def)
  have h1: "ts < length (h[ts := xs])" "(h[ts := xs]) ! ts = xs" using Cons.prems by simp_all
  from Cons.IH[OF h1 ok2 Cons.prems(4,5,6), of "if r = Status 200 then e else True" w1 "tr0 @ [?rq]"]
  obtain p' where IH: "zulip_loop is_email tr url hdrs auth ts
       (if r = Status 200 then e else True, ?p2, h[ts := xs], w1, tr0 @ [?rq]) =
      (((if r = Status 200 then e else True) \<or> \<not> list_all (\<lambda>r. r = Status 200)
               (responses tr w1 (map (zulip_request is_email base self body title) xs))),
       p', h[ts := xs, ts := []],
       (world_after tr w1 (map (zulip_request is_email base self body title) xs),
        (tr0 @ [?rq]) @ map (zulip_request is_email base self body title) xs))" and ok': "payload_ok title body p'"
    by blast
  have step: "zulip_loop is_email tr url hdrs auth ts (e, p, h, (w, tr0)) =
     zulip_loop is_email tr url hdrs auth ts
       (if r = Status 200 then e else True, ?p2, h[ts := xs], w1, tr0 @ [?rq])"
    apply (subst zulip_loop.simps)
    using Cons.prems(1,2,4,5,6) trw
    apply (simp add: list_pop0_def payload_step[OF Cons.prems(3)] Let_def zulip_request_def
             requests_post_def split del: if_split)
    done
  have "zulip_loop is_email tr url hdrs auth ts (e, p, h, (w, tr0)) =
      ((e \<or> \<not> list_all (\<lambda>r. r = Status 200)
               (responses tr w (map (zulip_request is_email base self body title) (x # xs)))),
       p', h[ts := []],
       (world_after tr w (map (zulip_request is_email base self body title) (x # xs)),
        tr0 @ map (zulip_request is_email base self body title) (x # xs)))"
    unfolding step IH using trw by (cases "r = Status 200") simp_all
  with ok' show ?case by blast
qed

lemma zulip_send_run:
  assumes "targets self < length h"
  shows "NotifyZulip_send is_email tr base (self, h) body title nt (w, tr0) =
      (list_all (\<lambda>r. r = Status 200)
         (responses tr w (map (zulip_request is_email base self body title) (h ! targets self))),
       (self, h @ [[]]),
       (world_after tr w (map (zulip_request is_email base self body title) (h ! targets self)),
        tr0 @ map (zulip_request is_email base self body title) (h ! targets self)))"
proof -
  let ?xs = "h ! targets self"
  let ?h1 = "h @ [?xs]"
  have a: "length h < length ?h1" by simp
  have b: "?h1 ! length h = ?xs" by simp
  have c: "payload_ok title body [(''subject'', title), (''content'', body)]"
    by (simp add: payload_ok_def)
  from zulip_loop_run[OF a b c refl refl refl, where is_email=is_email and tr=tr and e=False and w=w and ?tr0.0=tr0 and base=base and self=self]
  obtain p' where L: "zulip_loop is_email tr
       (''https://'' @ organization self @ ''.'' @ hostname self @ ''/api/v1/messages'')
       [(''User-Agent'', app_id base),
        (''Content-Type'', ''application/x-www-form-urlencoded; charset=utf-8'')]
       (botname self @ ''-bot@'' @ organization self @ ''.'' @ hostname self, Some (token self))
       (length h)
       (False, [(''subject'', title), (''content'', body)], ?h1, w, tr0) =
      (False \<or> \<not> list_all (\<lambda>r. r = Status 200)
           (responses tr w (map (zulip_request is_email base self body title) ?xs)),
       p', ?h1[length h := []],
       world_after tr w (map (zulip_request is_email base self body title) ?xs),
       tr0 @ map (zulip_request is_email base self body title) ?xs)"
    by blast
  show ?thesis
    unfolding NotifyZulip_send_def list_new_def
    using L by (simp add: Let_def)
qed

lemma zulip_request_type:
  "map_of (req_data (zulip_request is_email base self body title t)) ''type'' =
     Some (if is_email t = None then ''stream'' else ''private'')"
  by (simp add: zulip_request_def)

text \<open>
  Claim C2. For an adapter whose target list is allocated, \<open>send\<close> posts exactly one
  request per target, in list order and whatever the responses are; the request of a
  target is a private message when the target parses as an e-mail and a stream message
  otherwise; \<open>send\<close> returns true if and only if every response was a 200.
\<close>

theorem zulip_send_fans_out:
  assumes "targets self < length h"
  shows "snd (snd (snd (NotifyZulip_send is_email tr base (self, h) body title nt (w, tr0)))) =
           tr0 @ map (zulip_request is_email base self body title) (h ! targets self)
       \<and> map (\<lambda>rq. map_of (req_data rq) ''type'')
            (drop (length tr0)
               (snd (snd (snd (NotifyZulip_send is_email tr base (self, h) body title nt (w, tr0)))))) =
           map (\<lambda>t. Some (if is_email t = None then ''stream'' else ''private'')) (h ! targets self)
       \<and> fst (NotifyZulip_send is_email tr base (self, h) body title nt (w, tr0)) =
           list_all (\<lambda>r. r = Status 200)
             (responses tr w (map (zulip_request is_email base self body title) (h ! targets self)))"
  by (simp add: zulip_send_run[OF assms] zulip_request_type comp_def)

text \<open>The theorem at work on the targets \<open>alice@example.com\<close> and \<open>general\<close>, with a
  remote side that fails the first request: both requests are posted, a private one and
  then a stream one, and the result is false.\<close>

theorem zulip_send_fans_out_witness:
  "targets \<lparr> botname = ''goober'', organization = ''apprise'', hostname = ''zulipchat.com'',
             token = ''abcdefghijklmnopqrstuvwxyz012345'', targets = 0 \<rparr>
     < length [[''alice@example.com'', ''general'']]
   \<and> map (\<lambda>rq. map_of (req_data rq) ''type'')
        (snd (snd (snd (NotifyZulip_send example_is_email (fail_at 0) example_base
           (\<lparr> botname = ''goober'', organization = ''apprise'', hostname = ''zulipchat.com'',
              token = ''abcdefghijklmnopqrstuvwxyz012345'', targets = 0 \<rparr>,
            [[''alice@example.com'', ''general'']]) ''body'' ''title'' INFO (0, [])))))
       = [Some ''private'', Some ''stream'']
   \<and> fst (NotifyZulip_send example_is_email (fail_at 0) example_base
           (\<lparr> botname = ''goober'', organization = ''apprise'', hostname = ''zulipchat.com'',
              token = ''abcdefghijklmnopqrstuvwxyz012345'', targets = 0 \<rparr>,
            [[''alice@example.com'', ''general'']]) ''body'' ''title'' INFO (0, [])) = False"
proof -
  let ?z = "\<lparr> botname = ''goober'', organization = ''apprise'', hostname = ''zulipchat.com'',
             token = ''abcdefghijklmnopqrstuvwxyz012345'', targets = 0 \<rparr>"
  let ?h = "[[''alice@example.com'', ''general'']]"
  have h: "targets ?z < length ?h" by simp
  from zulip_send_fans_out[OF h, of example_is_email "fail_at 0" example_base "''body''" "''title''" INFO 0 "[]"]
  show ?thesis
    by (simp add: example_is_email_def fail_at_def zulip_request_type)
qed


section \<open>Properties of delivery\<close>

text \<open>
  Claim C4. \<open>send\<close> is a total function to a boolean. For PagerDuty it is true exactly
  when the transport answers with status 200, 201 or 202; for Kodi/XBMC exactly when it
  answers with status 200; for Zulip exactly when it answers every request with status
  200. Every other status and every transport error (\<open>RequestException\<close>) gives false.
\<close>

theorem send_succeeds_iff_status_accepted:
  assumes "targets z < length h"
  shows "fst (NotifyPagerDuty_send tr1 base a body title nt (w1, t1)) =
           (fst (tr1 w1 (pd_request base a body nt)) \<in> {Status 200, Status 201, Status 202})
       \<and> fst (NotifyXBMC_send tr2 base x body title nt (w2, t2)) =
           (fst (tr2 w2 (xbmc_request base x body title nt)) = Status 200)
       \<and> fst (NotifyZulip_send is_email tr3 base (z, h) body title nt (w3, t3)) =
           list_all (\<lambda>r. r = Status 200)
             (responses tr3 w3 (map (zulip_request is_email base z body title) (h ! targets z)))"
proof (intro conjI)
  show "fst (NotifyPagerDuty_send tr1 base a body title nt (w1, t1)) =
           (fst (tr1 w1 (pd_request base a body nt)) \<in> {Status 200, Status 201, Status 202})"
    by (auto simp: NotifyPagerDuty_send_def requests_post_def split: prod.splits response.splits)
  show "fst (NotifyXBMC_send tr2 base x body title nt (w2, t2)) =
           (fst (tr2 w2 (xbmc_request base x body title nt)) = Status 200)"
    by (auto simp: NotifyXBMC_send_def requests_post_def split: prod.splits response.splits)
  show "fst (NotifyZulip_send is_email tr3 base (z, h) body title nt (w3, t3)) =
           list_all (\<lambda>r. r = Status 200)
             (responses tr3 w3 (map (zulip_request is_email base z body title) (h ! targets z)))"
    by (simp add: zulip_send_run[OF assms])
qed

text \<open>The theorem at work: a transport that answers 500 to every request, and one that
  raises on every request, make \<open>send\<close> return false for the three providers.\<close>

theorem send_succeeds_iff_status_accepted_witness:
  "targets \<lparr> botname = ''goober'', organization = ''apprise'', hostname = ''zulipchat.com'',
             token = ''abcdefghijklmnopqrstuvwxyz012345'', targets = 0 \<rparr>
     < length [[''general'']]
   \<and> fst (NotifyPagerDuty_send (always (Status 500)) example_base
        \<lparr> apikey = ''ak'', integration_key = ''ik'', source = ''Apprise'',
          component = ''Notification'', region_name = ''us'', severity = None,
          click = None, class_id = None, group = None, details = [], include_image = True \<rparr>
        ''body'' ''title'' INFO ((), [])) = False
   \<and> fst (NotifyXBMC_send (always RequestException) example_base
        \<lparr> host = ''localhost'', port = None, user = None, password = None, secure = False,
          duration = 12, schema = ''http'', headers = [], protocol = 6,
          xbmc_include_image = True \<rparr>
        ''body'' ''title'' INFO ((), [])) = False
   \<and> fst (NotifyZulip_send example_is_email (always (Status 500)) example_base
        (\<lparr> botname = ''goober'', organization = ''apprise'', hostname = ''zulipchat.com'',
           token = ''abcdefghijklmnopqrstuvwxyz012345'', targets = 0 \<rparr>, [[''general'']])
        ''body'' ''title'' INFO ((), [])) = False"
proof -
  let ?z = "\<lparr> botname = ''goober'', organization = ''apprise'', hostname = ''zulipchat.com'',
             token = ''abcdefghijklmnopqrstuvwxyz012345'', targets = 0 \<rparr>"
  let ?a = "\<lparr> apikey = ''ak'', integration_key = ''ik'', source = ''Apprise'',
          component = ''Notification'', region_name = ''us'', severity = None,
          click = None, class_id = None, group = None, details = [], include_image = True \<rparr>"
  let ?x = "\<lparr> host = ''localhost'', port = None, user = None, password = None, secure = False,
          duration = 12, schema = ''http'', headers = [], protocol = 6,
          xbmc_include_image = True \<rparr>"
  have h: "targets ?z < length [[''general'']]" by simp
  from send_succeeds_iff_status_accepted[OF h,
      where ?tr1.0 = "always (Status 500)" and base = example_base and a = ?a
        and body = "''body''" and title = "''title''" and nt = INFO and ?w1.0 = "()" and ?t1.0 = "[]"
        and ?tr2.0 = "always RequestException" and x = ?x and ?w2.0 = "()" and ?t2.0 = "[]"
        and ?tr3.0 = "always (Status 500)" and is_email = example_is_email
        and ?w3.0 = "()" and ?t3.0 = "[]"]
  have "fst (NotifyPagerDuty_send (always (Status 500)) example_base ?a ''body'' ''title'' INFO ((), [])) = False
      \<and> fst (NotifyXBMC_send (always RequestException) example_base ?x ''body'' ''title'' INFO ((), [])) = False
      \<and> fst (NotifyZulip_send example_is_email (always (Status 500)) example_base
        (?z, [[''general'']]) ''body'' ''title'' INFO ((), [])) = False"
    by (simp add: always_def)
  with h show ?thesis by (intro conjI) simp_all
qed

section \<open>The frame of send\<close>

text \<open>
  Claim C9. \<open>send\<close> returns the adapter it was called on, for the three providers. For
  Zulip, whose loop consumes a list, the list consumed is a fresh copy: after the call
  the target list of the adapter holds what it held before, and so does every list
  that was allocated before the call, whatever the responses were.
\<close>

theorem send_leaves_adapter_unchanged:
  assumes "targets z < length h"
  shows "fst (snd (NotifyPagerDuty_send tr1 base a body title nt n1)) = a
       \<and> fst (snd (NotifyXBMC_send tr2 base x body title nt n2)) = x
       \<and> fst (fst (snd (NotifyZulip_send is_email tr3 base (z, h) body title nt n3))) = z
       \<and> snd (fst (snd (NotifyZulip_send is_email tr3 base (z, h) body title nt n3))) ! targets z
           = h ! targets z
       \<and> take (length h) (snd (fst (snd (NotifyZulip_send is_email tr3 base (z, h) body title nt n3))))
           = h"
proof -
  obtain w3 t3 where n3: "n3 = (w3, t3)" by (cases n3)
  have pd: "fst (snd (NotifyPagerDuty_send tr1 base a body title nt n1)) = a"
    by (simp add: NotifyPagerDuty_send_def split: prod.splits response.splits)
  have xb: "fst (snd (NotifyXBMC_send tr2 base x body title nt n2)) = x"
    by (simp add: NotifyXBMC_send_def split: prod.splits response.splits)
  have zu: "fst (snd (NotifyZulip_send is_email tr3 base (z, h) body title nt n3)) = (z, h @ [[]])"
    unfolding n3 by (simp add: zulip_send_run[OF assms])
  show ?thesis
    using assms by (simp add: pd xb zu nth_append)
qed

text \<open>The theorem at work: after a \<open>send\<close> whose first request fails, the adapter's list
  still holds both targets.\<close>

theorem send_leaves_adapter_unchanged_witness:
  "targets \<lparr> botname = ''goober'', organization = ''apprise'', hostname = ''zulipchat.com'',
             token = ''abcdefghijklmnopqrstuvwxyz012345'', targets = 0 \<rparr>
     < length [[''alice@example.com'', ''general'']]
   \<and> snd (fst (snd (NotifyZulip_send example_is_email (fail_at 0) example_base
        (\<lparr> botname = ''goober'', organization = ''apprise'', hostname = ''zulipchat.com'',
           token = ''abcdefghijklmnopqrstuvwxyz012345'', targets = 0 \<rparr>,
         [[''alice@example.com'', ''general'']]) ''body'' ''title'' INFO (0, [])))) ! 0
       = [''alice@example.com'', ''general'']"
proof -
  let ?z = "\<lparr> botname = ''goober'', organization = ''apprise'', hostname = ''zulipchat.com'',
             token = ''abcdefghijklmnopqrstuvwxyz012345'', targets = 0 \<rparr>"
  have h: "targets ?z < length [[''alice@example.com'', ''general'']]" by simp
  from send_leaves_adapter_unchanged[OF h,
      where is_email = example_is_email and ?tr3.0 = "fail_at 0" and base = example_base
        and body = "''body''" and title = "''title''" and nt = INFO and ?n3.0 = "(0, [])"
        and ?tr1.0 = "always (Status 200)" and ?n1.0 = "((), [])"
        and ?tr2.0 = "always (Status 200)" and ?n2.0 = "((), [])"
        and a = "\<lparr> apikey = ''ak'', integration_key = ''ik'', source = ''Apprise'',
          component = ''Notification'', region_name = ''us'', severity = None,
          click = None, class_id = None, group = None, details = [], include_image = True \<rparr>"
        and x = "\<lparr> host = ''localhost'', port = None, user = None, password = None, secure = False,
          duration = 12, schema = ''http'', headers = [], protocol = 6,
          xbmc_include_image = True \<rparr>"]
  show ?thesis by simp
qed

section \<open>The PagerDuty URL round trip\<close>

text \<open>A URL whose fields hold neither a space nor a percent sign after decoding comes
  back: the adapter of a URL with a path source, two custom details, a region, a
  severity prefix, a click URL and the image flag is rendered to a URL that parses and
  constructs to the same adapter.\<close>

lemma pagerduty_round_trip_example:
  "map_option NotifyPagerDuty_init
     (NotifyPagerDuty_parse_url
        ''pagerduty://ik@ak/my%20src?+env=prod&+host=node1&region=EU&severity=crit&click=http%3A%2F%2Fx&image=no'')
     = Some (Inr \<lparr> apikey = ''ak'', integration_key = ''ik'', source = ''my src'',
                   component = ''Notification'', region_name = ''eu'', severity = Some ''critical'',
                   click = Some ''http://x'', class_id = None, group = None,
                   details = [(''env'', ''prod''), (''host'', ''node1'')], include_image = False \<rparr>)
   \<and> NotifyPagerDuty_url example_base
        \<lparr> apikey = ''ak'', integration_key = ''ik'', source = ''my src'',
          component = ''Notification'', region_name = ''eu'', severity = Some ''critical'',
          click = Some ''http://x'', class_id = None, group = None,
          details = [(''env'', ''prod''), (''host'', ''node1'')], include_image = False \<rparr> False
     = ''pagerduty://ik@ak/my%20src/Notification?region=eu&image=no&click=http%3A%2F%2Fx&severity=critical&%2Benv=prod&%2Bhost=node1''
   \<and> map_option NotifyPagerDuty_init
        (NotifyPagerDuty_parse_url
           ''pagerduty://ik@ak/my%20src/Notification?region=eu&image=no&click=http%3A%2F%2Fx&severity=critical&%2Benv=prod&%2Bhost=node1'')
     = Some (Inr \<lparr> apikey = ''ak'', integration_key = ''ik'', source = ''my src'',
                   component = ''Notification'', region_name = ''eu'', severity = Some ''critical'',
                   click = Some ''http://x'', class_id = None, group = None,
                   details = [(''env'', ''prod''), (''host'', ''node1'')], include_image = False \<rparr>)"
proof (intro conjI)
  show "map_option NotifyPagerDuty_init
     (NotifyPagerDuty_parse_url
        ''pagerduty://ik@ak/my%20src?+env=prod&+host=node1&region=EU&severity=crit&click=http%3A%2F%2Fx&image=no'')
     = Some (Inr \<lparr> apikey = ''ak'', integration_key = ''ik'', source = ''my src'',
                   component = ''Notification'', region_name = ''eu'', severity = Some ''critical'',
                   click = Some ''http://x'', class_id = None, group = None,
                   details = [(''env'', ''prod''), (''host'', ''node1'')], include_image = False \<rparr>)"
    by code_simp
  show "NotifyPagerDuty_url example_base
        \<lparr> apikey = ''ak'', integration_key = ''ik'', source = ''my src'',
          component = ''Notification'', region_name = ''eu'', severity = Some ''critical'',
          click = Some ''http://x'', class_id = None, group = None,
          details = [(''env'', ''prod''), (''host'', ''node1'')], include_image = False \<rparr> False
     = ''pagerduty://ik@ak/my%20src/Notification?region=eu&image=no&click=http%3A%2F%2Fx&severity=critical&%2Benv=prod&%2Bhost=node1''"
    by code_simp
  show "map_option NotifyPagerDuty_init
        (NotifyPagerDuty_parse_url
           ''pagerduty://ik@ak/my%20src/Notification?region=eu&image=no&click=http%3A%2F%2Fx&severity=critical&%2Benv=prod&%2Bhost=node1'')
     = Some (Inr \<lparr> apikey = ''ak'', integration_key = ''ik'', source = ''my src'',
                   component = ''Notification'', region_name = ''eu'', severity = Some ''critical'',
                   click = Some ''http://x'', class_id = None, group = None,
                   details = [(''env'', ''prod''), (''host'', ''node1'')], include_image = False \<rparr>)"
    by code_simp
qed

text \<open>
  Claim C3. The round trip fails on a valid URL. \<open>url\<close> encodes every query key and
  value once, through \<open>urlencode\<close> (lines 478 and 499); the query parser decodes them
  once, which it must to find the prefix \<open>+\<close> of a detail key that \<open>urlencode\<close> renders
  as \<open>%2B\<close>; and \<open>parse_url\<close> decodes what the parser returns a second time (lines
  570-573 for the details, lines 532-546 for click, group, class and severity). A field
  that still holds a percent escape after the first decoding is therefore changed by the
  round trip: the URL \<open>pagerduty://ik@ak?+%252541=v\<close> gives an adapter with the detail key
  \<open>%41\<close>, and the URL rendered from that adapter gives an adapter with the detail key \<open>A\<close>.
\<close>

theorem pagerduty_round_trip_changes_details:
  "map_option NotifyPagerDuty_init (NotifyPagerDuty_parse_url ''pagerduty://ik@ak?+%252541=v'')
     = Some (Inr \<lparr> apikey = ''ak'', integration_key = ''ik'', source = ''Apprise'',
                   component = ''Notification'', region_name = ''us'', severity = None,
                   click = None, class_id = None, group = None,
                   details = [(''%41'', ''v'')], include_image = True \<rparr>)
   \<and> NotifyPagerDuty_url example_base
        \<lparr> apikey = ''ak'', integration_key = ''ik'', source = ''Apprise'',
          component = ''Notification'', region_name = ''us'', severity = None,
          click = None, class_id = None, group = None,
          details = [(''%41'', ''v'')], include_image = True \<rparr> False
     = ''pagerduty://ik@ak/Apprise/Notification?region=us&image=yes&%2B%2541=v''
   \<and> map_option NotifyPagerDuty_init
        (NotifyPagerDuty_parse_url ''pagerduty://ik@ak/Apprise/Notification?region=us&image=yes&%2B%2541=v'')
     = Some (Inr \<lparr> apikey = ''ak'', integration_key = ''ik'', source = ''Apprise'',
                   component = ''Notification'', region_name = ''us'', severity = None,
                   click = None, class_id = None, group = None,
                   details = [(''A'', ''v'')], include_image = True \<rparr>)
   \<and> [(''A'', ''v'')] \<noteq> [(''%41'', ''v'')]"
proof (intro conjI)
  show "map_option NotifyPagerDuty_init (NotifyPagerDuty_parse_url ''pagerduty://ik@ak?+%252541=v'')
     = Some (Inr \<lparr> apikey = ''ak'', integration_key = ''ik'', source = ''Apprise'',
                   component = ''Notification'', region_name = ''us'', severity = None,
                   click = None, class_id = None, group = None,
                   details = [(''%41'', ''v'')], include_image = True \<rparr>)"
    by code_simp
  show "NotifyPagerDuty_url example_base
        \<lparr> apikey = ''ak'', integration_key = ''ik'', source = ''Apprise'',
          component = ''Notification'', region_name = ''us'', severity = None,
          click = None, class_id = None, group = None,
          details = [(''%41'', ''v'')], include_image = True \<rparr> False
     = ''pagerduty://ik@ak/Apprise/Notification?region=us&image=yes&%2B%2541=v''"
    by code_simp
  show "map_option NotifyPagerDuty_init
        (NotifyPagerDuty_parse_url ''pagerduty://ik@ak/Apprise/Notification?region=us&image=yes&%2B%2541=v'')
     = Some (Inr \<lparr> apikey = ''ak'', integration_key = ''ik'', source = ''Apprise'',
                   component = ''Notification'', region_name = ''us'', severity = None,
                   click = None, class_id = None, group = None,
                   details = [(''A'', ''v'')], include_image = True \<rparr>)"
    by code_simp
  show "[(''A'', ''v'')] \<noteq> [(''%41'', ''v'')]" by simp
qed

text \<open>The same double decoding changes a query value: the click URL \<open>http://x/%41\<close>,
  given as \<open>click=http%3A%2F%2Fx%2F%252541\<close>, comes back as \<open>http://x/A\<close>.\<close>

lemma pagerduty_round_trip_changes_click:
  "map_option (map_sum id click)
     (map_option NotifyPagerDuty_init
        (NotifyPagerDuty_parse_url ''pagerduty://ik@ak?click=http%3A%2F%2Fx%2F%252541''))
     = Some (Inr (Some ''http://x/%41''))
   \<and> NotifyPagerDuty_url example_base
        \<lparr> apikey = ''ak'', integration_key = ''ik'', source = ''Apprise'',
          component = ''Notification'', region_name = ''us'', severity = None,
          click = Some ''http://x/%41'', class_id = None, group = None,
          details = [], include_image = True \<rparr> False
     = ''pagerduty://ik@ak/Apprise/Notification?region=us&image=yes&click=http%3A%2F%2Fx%2F%2541''
   \<and> map_option (map_sum id click)
       (map_option NotifyPagerDuty_init
          (NotifyPagerDuty_parse_url
             ''pagerduty://ik@ak/Apprise/Notification?region=us&image=yes&click=http%3A%2F%2Fx%2F%2541''))
     = Some (Inr (Some ''http://x/A''))"
proof (intro conjI)
  show "map_option (map_sum id click)
     (map_option NotifyPagerDuty_init
        (NotifyPagerDuty_parse_url ''pagerduty://ik@ak?click=http%3A%2F%2Fx%2F%252541''))
     = Some (Inr (Some ''http://x/%41''))"
    by code_simp
  show "NotifyPagerDuty_url example_base
        \<lparr> apikey = ''ak'', integration_key = ''ik'', source = ''Apprise'',
          component = ''Notification'', region_name = ''us'', severity = None,
          click = Some ''http://x/%41'', class_id = None, group = None,
          details = [], include_image = True \<rparr> False
     = ''pagerduty://ik@ak/Apprise/Notification?region=us&image=yes&click=http%3A%2F%2Fx%2F%2541''"
    by code_simp
  show "map_option (map_sum id click)
       (map_option NotifyPagerDuty_init
          (NotifyPagerDuty_parse_url
             ''pagerduty://ik@ak/Apprise/Notification?region=us&image=yes&click=http%3A%2F%2Fx%2F%2541''))
     = Some (Inr (Some ''http://x/A''))"
    by code_simp
qed

text \<open>A space does not come back either: \<open>urlencode\<close> renders it as \<open>+\<close>, which the
  parser leaves as it is. The group \<open>a b\<close>, given as \<open>group=a%20b\<close>, is rendered as
  \<open>group=a+b\<close> and read back as \<open>a+b\<close>.\<close>

lemma pagerduty_round_trip_space_becomes_plus:
  "map_option (map_sum id group)
     (map_option NotifyPagerDuty_init (NotifyPagerDuty_parse_url ''pagerduty://ik@ak?group=a%20b''))
     = Some (Inr (Some ''a b''))
   \<and> NotifyPagerDuty_url example_base
        \<lparr> apikey = ''ak'', integration_key = ''ik'', source = ''Apprise'',
          component = ''Notification'', region_name = ''us'', severity = None,
          click = None, class_id = None, group = Some ''a b'',
          details = [], include_image = True \<rparr> False
     = ''pagerduty://ik@ak/Apprise/Notification?region=us&image=yes&group=a+b''
   \<and> map_option (map_sum id group)
       (map_option NotifyPagerDuty_init
          (NotifyPagerDuty_parse_url ''pagerduty://ik@ak/Apprise/Notification?region=us&image=yes&group=a+b''))
     = Some (Inr (Some ''a+b''))"
proof (intro conjI)
  show "map_option (map_sum id group)
     (map_option NotifyPagerDuty_init (NotifyPagerDuty_parse_url ''pagerduty://ik@ak?group=a%20b''))
     = Some (Inr (Some ''a b''))"
    by code_simp
  show "NotifyPagerDuty_url example_base
        \<lparr> apikey = ''ak'', integration_key = ''ik'', source = ''Apprise'',
          component = ''Notification'', region_name = ''us'', severity = None,
          click = None, class_id = None, group = Some ''a b'',
          details = [], include_image = True \<rparr> False
     = ''pagerduty://ik@ak/Apprise/Notification?region=us&image=yes&group=a+b''"
    by code_simp
  show "map_option (map_sum id group)
       (map_option NotifyPagerDuty_init
          (NotifyPagerDuty_parse_url ''pagerduty://ik@ak/Apprise/Notification?region=us&image=yes&group=a+b''))
     = Some (Inr (Some ''a+b''))"
    by code_simp
qed

end
